theory Spec2Isabelle
  imports Complex_Main
begin

section \<open>Data model of the TTS interface (components/tts-interface.tsx)\<close>

text \<open>
  Decoded audio is a \<open>Float32Array\<close>; it is modelled as a list of real samples. The
  rounding of each sample to 32-bit floating point is not modelled: no claim below depends
  on the numeric value of a sample, only on which array is returned and on its length.
  JavaScript numbers that hold integers (speaker, lengths, top-k) are \<open>int\<close>, the
  temperature is \<open>real\<close>. A string is the UTF-8 encoding of the program's string, a list
  of bytes.
\<close>

type_synonym samples = "real list"

text \<open>
  What a lookup \<open>audioCache[url]\<close> can yield. The cache is a plain object, so besides
  the arrays stored in it a lookup finds the members every object inherits from
  \<open>Object.prototype\<close>; each of them is a function or an object, and so is truthy.
\<close>

datatype lookup_value = Float32Array samples | InheritedMember string

definition object_prototype_names :: "string list" where
  "object_prototype_names =
     [''constructor'', ''__defineGetter__'', ''__defineSetter__'', ''hasOwnProperty'',
      ''__lookupGetter__'', ''__lookupSetter__'', ''isPrototypeOf'',
      ''propertyIsEnumerable'', ''toString'', ''valueOf'', ''__proto__'',
      ''toLocaleString'']"

text \<open>
  \<open>cache[url]\<close> for a plain object whose own properties are \<open>cache\<close>: the own
  property if there is one, else the inherited member of that name, else \<open>undefined\<close>.
\<close>

definition cache_get :: "(string \<rightharpoonup> samples) \<Rightarrow> string \<Rightarrow> lookup_value option" where
  "cache_get cache url =
     (case cache url of
        Some d \<Rightarrow> Some (Float32Array d)
      | None \<Rightarrow> if url \<in> set object_prototype_names then Some (InheritedMember url)
                else None)"

record Segment =
  speaker :: int
  text_field :: string
  audio :: "samples option"
  audioPath :: "string option"

record ContextFile =
  name :: string
  segments :: "Segment list"

record SavedSession =
  sess_id :: string
  sess_name :: string
  sess_inputText :: string
  sess_selectedSpeaker :: int
  sess_maxAudioLength :: int
  sess_temperature :: real
  sess_topK :: int
  sess_contextName :: "string option"
  sess_createdAt :: int

text \<open>The notifications of the \<open>sonner\<close> toaster, in the order they are raised.\<close>

datatype toast = ToastError string | ToastSuccess string | ToastWarning string

text \<open>Observable input/output of the audio retrieval, in the order it is performed.\<close>

datatype http_method = GET | HEAD

datatype io_event =
    IoAudioElement string
  | IoFetch http_method string
  | IoDecode

text \<open>
  The state of the \<open>TTSInterface\<close> component: one field for each \<open>useState\<close> cell the
  modelled functions read or write, the module-level \<open>audioCache\<close>, and three fields that
  only record what happened: the toasts raised, the I/O performed by the audio retrieval and
  the callbacks handed to \<open>setTimeout\<close> (each is the URL whose retrieval is retried).
  The field \<open>audioCache\<close> holds the own properties of the cache object, which are the
  arrays written to it; \<open>cache_get\<close> is the lookup. The visualization data is whatever
  the retrieval returned.
\<close>

record ui_state =
  inputText :: string
  selectedSpeaker :: int
  maxAudioLength :: int
  temperature :: real
  topK :: int
  contexts :: "ContextFile list"
  activeContext :: "ContextFile option"
  newContextName :: string
  savedSessions :: "SavedSession list"
  currentSessionName :: "string option"
  showLoadSessionDialog :: bool
  audioUrl :: "string option"
  isProcessing :: bool
  generationProgress :: nat
  audioData :: "lookup_value option"
  audioCache :: "string \<rightharpoonup> samples"
  toasts :: "toast list"
  io_log :: "io_event list"
  timers :: "string list"

definition init_state :: ui_state where
  "init_state = \<lparr>
     inputText = '''', selectedSpeaker = 0, maxAudioLength = 10000, temperature = 0.9,
     topK = 50, contexts = [], activeContext = None, newContextName = '''',
     savedSessions = [], currentSessionName = None, showLoadSessionDialog = False,
     audioUrl = None, isProcessing = False, generationProgress = 0, audioData = None,
     audioCache = Map.empty, toasts = [], io_log = [], timers = [] \<rparr>"

definition toast_error :: "string \<Rightarrow> ui_state \<Rightarrow> ui_state" where
  "toast_error m s = s\<lparr>toasts := toasts s @ [ToastError m]\<rparr>"

definition toast_success :: "string \<Rightarrow> ui_state \<Rightarrow> ui_state" where
  "toast_success m s = s\<lparr>toasts := toasts s @ [ToastSuccess m]\<rparr>"

definition toast_warning :: "string \<Rightarrow> ui_state \<Rightarrow> ui_state" where
  "toast_warning m s = s\<lparr>toasts := toasts s @ [ToastWarning m]\<rparr>"

text \<open>The double-quote character, which the toast messages put around names.\<close>

definition dquote :: string where
  "dquote = [CHR 0x22]"

text \<open>\<open>contexts.find(ctx => ctx.name === n)\<close>: the first context of that name.\<close>

definition find_context :: "string \<Rightarrow> ContextFile list \<Rightarrow> ContextFile option" where
  "find_context n cs = find (\<lambda>ctx. name ctx = n) cs"

section \<open>Context store: createContext\<close>

text \<open>
  \<open>createContext\<close> reads the name from the \<open>newContextName\<close> cell. An empty name and a
  name already in use each raise an error toast and return before any setter is called.
\<close>

definition createContext :: "ui_state \<Rightarrow> ui_state" where
  "createContext s =
     (if newContextName s = [] then
        toast_error ''Please enter a name for the context'' s
      else if list_ex (\<lambda>ctx. name ctx = newContextName s) (contexts s) then
        toast_error ''A context with this name already exists'' s
      else
        (let newContext = \<lparr>name = newContextName s, segments = []\<rparr>
         in toast_success (''Context '' @ dquote @ newContextName s @ dquote @ '' created and set as active'')
              (s\<lparr>contexts := contexts s @ [newContext],
                 activeContext := Some newContext,
                 newContextName := ''''\<rparr>)))"

section \<open>Session store: loadSession\<close>


section \<open>Audio retrieval: getProxyAudioUrl and fetchAudioBuffer\<close>

text \<open>
  A \<open>try\<close> block either returns a value or throws; the message of the thrown error is
  kept without its interpolated parts (status codes, nested messages), which only reach the
  console.
\<close>

datatype 'a completion = Returns 'a | Throws string

text \<open>\<open>s.split('/').pop()\<close>: what follows the last slash.\<close>

definition last_segment :: "string \<Rightarrow> string" where
  "last_segment s = rev (takeWhile (\<lambda>c. c \<noteq> CHR ''/'') (rev s))"

text \<open>
  \<open>encodeURIComponent\<close> on a byte string: letters, digits and \<open>- _ . ! ~ * ' ( )\<close> stay,
  every other byte becomes \<open>%XX\<close>. A string with a lone surrogate, for which the
  function throws, has no UTF-8 encoding and is not a string of the model.
\<close>

definition uri_unreserved :: "char \<Rightarrow> bool" where
  "uri_unreserved c \<longleftrightarrow>
     c \<in> set (''ABCDEFGHIJKLMNOPQRSTUVWXYZabcdefghijklmnopqrstuvwxyz0123456789-_.!~*()''
              @ [CHR 0x27])"

definition hex_digit :: "nat \<Rightarrow> char" where
  "hex_digit n = ''0123456789ABCDEF'' ! (n mod 16)"

definition encodeURIComponent :: "string \<Rightarrow> string" where
  "encodeURIComponent s =
     concat (map (\<lambda>c. if uri_unreserved c then [c]
                       else [CHR ''%'', hex_digit (of_char c div 16), hex_digit (of_char c)]) s)"

definition getProxyAudioUrl :: "string \<Rightarrow> string" where
  "getProxyAudioUrl publicUrl =
     (if publicUrl = [] then []
      else (let filename = last_segment publicUrl
            in if filename = [] then publicUrl
               else ''/api/audio-proxy?filename='' @ encodeURIComponent filename))"

text \<open>
  The network as \<open>fetch\<close> sees it. A request either fails (the promise rejects) or yields a
  response with a status and a body; \<open>body = None\<close> stands for a body that cannot be read
  (\<open>arrayBuffer()\<close> rejects).
\<close>

record http_response =
  status :: nat
  body :: "string option"

datatype fetch_result = NetworkError string | Response http_response

definition response_ok :: "http_response \<Rightarrow> bool" where
  "response_ok r \<longleftrightarrow> 200 \<le> status r \<and> status r \<le> 299"

text \<open>
  Everything outside the component that one call of \<open>fetchAudioBuffer\<close> depends on: the
  two readings of \<open>Date.now()\<close> (as they are rendered into the URLs), the network, whether
  an \<open>AudioContext\<close> can be constructed, and the decoder (\<open>None\<close>: \<open>decodeAudioData\<close>
  rejects). Every awaited operation is taken to settle.
\<close>

record fetch_env =
  ts_fetch :: string
  ts_probe :: string
  net :: "http_method \<Rightarrow> string \<Rightarrow> fetch_result"
  audioContextAvailable :: bool
  decodeAudioData :: "string \<Rightarrow> samples option"

text \<open>The inner \<open>try\<close>/\<open>catch\<close>: the direct URL first, the proxy URL when that fails.\<close>

definition fetch_direct_or_proxy ::
  "fetch_env \<Rightarrow> string \<Rightarrow> string \<Rightarrow> http_response completion \<times> io_event list" where
  "fetch_direct_or_proxy env directUrl proxyUrl =
     (let direct = (case net env GET directUrl of
                      NetworkError e \<Rightarrow> Throws e
                    | Response r \<Rightarrow> if response_ok r then Returns r
                                    else Throws ''Direct URL failed with status'')
      in case direct of
           Returns r \<Rightarrow> (Returns r, [IoFetch GET directUrl])
         | Throws directError \<Rightarrow>
             (case net env GET proxyUrl of
                NetworkError e \<Rightarrow> (Throws e, [IoFetch GET directUrl, IoFetch GET proxyUrl])
              | Response r \<Rightarrow>
                  (if response_ok r then Returns r
                   else Throws ''Both direct and proxy URLs failed'',
                   [IoFetch GET directUrl, IoFetch GET proxyUrl])))"

text \<open>
  The body of the outer \<open>try\<close>. The result is optional because the caller tests it for
  truthiness; every \<open>return\<close> of the source returns what a truthy lookup found or an
  array, which is truthy.
\<close>

definition fetchAudioBuffer_try ::
  "fetch_env \<Rightarrow> string \<Rightarrow> ui_state \<Rightarrow> lookup_value option completion \<times> ui_state" where
  "fetchAudioBuffer_try env url s =
     (case cache_get (audioCache s) url of
        Some cached \<Rightarrow> (Returns (Some cached), s)
      | None \<Rightarrow>
          (let directUrl = url @ ''?t='' @ ts_fetch env;
               proxyUrl = getProxyAudioUrl url;
               (response, fetched) = fetch_direct_or_proxy env directUrl proxyUrl;
               s1 = s\<lparr>io_log := io_log s @ IoAudioElement url # fetched\<rparr>
           in case response of
                Throws e \<Rightarrow> (Throws e, s1)
              | Returns r \<Rightarrow>
                  (case body r of
                     None \<Rightarrow> (Throws ''Failed to read the response body'', s1)
                   | Some arrayBuffer \<Rightarrow>
                       if arrayBuffer = [] then (Throws ''Received empty audio file'', s1)
                       else if \<not> audioContextAvailable env then
                         (Throws ''Failed to construct AudioContext'', s1)
                       else
                         (let s2 = s1\<lparr>io_log := io_log s1 @ [IoDecode]\<rparr>
                          in case decodeAudioData env arrayBuffer of
                               None \<Rightarrow> (Throws ''Failed to decode audio'', s2)
                             | Some channelData \<Rightarrow>
                                 (Returns (Some (Float32Array channelData)),
                                  s2\<lparr>audioCache := (audioCache s2)(url \<mapsto> channelData)\<rparr>)))))"

text \<open>The two synthetic waveforms, at 24000 samples per second.\<close>

definition probe_placeholder :: samples where
  "probe_placeholder =
     map (\<lambda>i. let t = real i / 24000
               in 0.5 * sin (2 * pi * 440 * t) * (0.6 + 0.4 * sin (2 * pi * 0.5 * t)))
         [0..<24000 * 5]"

definition last_resort_placeholder :: samples where
  "last_resort_placeholder =
     map (\<lambda>i. let t = real i / 24000 in 0.25 * sin (2 * pi * 220 * t)) [0..<24000 * 3]"

text \<open>
  The outer \<open>catch\<close>: a \<open>HEAD\<close> request tells whether the file exists; a failing
  \<open>HEAD\<close> is swallowed by the inner \<open>catch\<close> and falls through to the last resort.
\<close>

definition fetchAudioBuffer_catch ::
  "fetch_env \<Rightarrow> string \<Rightarrow> ui_state \<Rightarrow> lookup_value option completion \<times> ui_state" where
  "fetchAudioBuffer_catch env url s =
     (let probeUrl = url @ ''?t='' @ ts_probe env;
          s1 = s\<lparr>io_log := io_log s @ [IoFetch HEAD probeUrl]\<rparr>;
          headOk = (case net env HEAD probeUrl of
                      NetworkError e \<Rightarrow> False
                    | Response r \<Rightarrow> response_ok r)
      in if headOk then
           (Returns (Some (Float32Array probe_placeholder)),
            toast_warning
              ''Audio visualization may not be accurate, but audio should play correctly''
              (s1\<lparr>audioCache := (audioCache s1)(url \<mapsto> probe_placeholder)\<rparr>))
         else
           (Returns (Some (Float32Array last_resort_placeholder)),
            toast_warning ''Audio visualization not available, but audio should still play'' s1))"

definition fetchAudioBuffer ::
  "fetch_env \<Rightarrow> string \<Rightarrow> ui_state \<Rightarrow> lookup_value option completion \<times> ui_state" where
  "fetchAudioBuffer env url s =
     (case fetchAudioBuffer_try env url s of
        (Returns r, s1) \<Rightarrow> (Returns r, s1)
      | (Throws e, s1) \<Rightarrow> fetchAudioBuffer_catch env url s1)"

section \<open>Server: path handling of Node's \<open>path\<close> module (POSIX)\<close>

text \<open>
  \<open>path.basename\<close>, \<open>path.join\<close> and \<open>path.resolve\<close> are library functions; they are
  modelled after the POSIX implementation of Node. \<open>basename\<close> drops trailing slashes and
  keeps what follows the last remaining slash.
\<close>

definition is_sep :: "char \<Rightarrow> bool" where
  "is_sep c \<longleftrightarrow> c = CHR ''/''"

definition basename :: "string \<Rightarrow> string" where
  "basename p =
     (let trimmed = rev (dropWhile is_sep (rev p))
      in rev (takeWhile (\<lambda>c. \<not> is_sep c) (rev trimmed)))"

fun split_path :: "string \<Rightarrow> string list" where
  "split_path [] = [[]]"
| "split_path (c # cs) =
     (if is_sep c then [] # split_path cs
      else (case split_path cs of
              [] \<Rightarrow> [[c]]
            | seg # segs \<Rightarrow> (c # seg) # segs))"

fun join_slash :: "string list \<Rightarrow> string" where
  "join_slash [] = []"
| "join_slash [seg] = seg"
| "join_slash (seg # segs) = seg @ ''/'' @ join_slash segs"

text \<open>
  \<open>normalizeString\<close>: empty and \<open>.\<close> segments vanish, \<open>..\<close> removes the segment before it;
  where there is none to remove it is kept only if the path may climb above its root. The
  accumulator holds the segments kept so far, last first.
\<close>

fun normalize_segments :: "bool \<Rightarrow> string list \<Rightarrow> string list \<Rightarrow> string list" where
  "normalize_segments allowAboveRoot acc [] = rev acc"
| "normalize_segments allowAboveRoot acc (seg # segs) =
     (if seg = [] \<or> seg = ''.'' then normalize_segments allowAboveRoot acc segs
      else if seg = ''..'' then
        (case acc of
           [] \<Rightarrow> normalize_segments allowAboveRoot (if allowAboveRoot then [seg] else []) segs
         | l # rest \<Rightarrow>
             if l = ''..'' then
               normalize_segments allowAboveRoot (if allowAboveRoot then seg # acc else acc) segs
             else normalize_segments allowAboveRoot rest segs)
      else normalize_segments allowAboveRoot (seg # acc) segs)"

definition path_normalize :: "string \<Rightarrow> string" where
  "path_normalize p =
     (if p = [] then ''.''
      else (let isAbsolute = is_sep (hd p);
                trailingSeparator = is_sep (last p);
                q = join_slash (normalize_segments (\<not> isAbsolute) [] (split_path p))
            in if q = [] then
                 (if isAbsolute then ''/'' else if trailingSeparator then ''./'' else ''.'')
               else (if isAbsolute then ''/'' else []) @ q
                    @ (if trailingSeparator then ''/'' else [])))"

definition path_join :: "string list \<Rightarrow> string" where
  "path_join args =
     (let joined = join_slash (filter (\<lambda>a. a \<noteq> []) args)
      in if joined = [] then ''.'' else path_normalize joined)"

text \<open>\<open>path.resolve\<close> of one absolute path, which \<open>process.cwd()\<close> always is.\<close>

definition path_resolve :: "string \<Rightarrow> string" where
  "path_resolve p = ''/'' @ join_slash (normalize_segments False [] (split_path p))"

text \<open>
  Both file-serving handlers (pages/api/audio-proxy.ts and the check-audio handler of
  unnamed/part_000) derive the file to open from the query parameter in the same way.
\<close>

definition audio_dir :: "string \<Rightarrow> string" where
  "audio_dir cwd = path_join [path_resolve cwd, ''public'', ''audio'']"

definition audio_file_path :: "string \<Rightarrow> string \<Rightarrow> string" where
  "audio_file_path cwd filename =
     (let sanitizedFilename = basename filename
      in path_join [audio_dir cwd, sanitizedFilename])"

text \<open>
  A path lies inside a directory when it is the directory's path, a slash, and at least
  one more character that does not lead back out: no segment of the rest is \<open>..\<close>.
\<close>

definition inside_dir :: "string \<Rightarrow> string \<Rightarrow> bool" where
  "inside_dir dir p \<longleftrightarrow>
     length dir < length p \<and> take (length dir + 1) p = dir @ ''/''
     \<and> drop (length dir + 1) p \<noteq> []
     \<and> ''..'' \<notin> set (split_path (drop (length dir + 1) p))"

text \<open>
  For the properties of the path handling: a segment is normal when it is a plain name
  (not empty, not \<open>.\<close>, not \<open>..\<close>, without a slash), and the segments of the resolved
  working directory are what \<open>path.resolve\<close> keeps of it.
\<close>

definition normal_segment :: "string \<Rightarrow> bool" where
  "normal_segment seg \<longleftrightarrow>
     seg \<noteq> [] \<and> seg \<noteq> ''.'' \<and> seg \<noteq> ''..'' \<and> CHR ''/'' \<notin> set seg"

definition resolved_segments :: "string \<Rightarrow> string list" where
  "resolved_segments cwd = normalize_segments False [] (split_path cwd)"

section \<open>Server: the file-serving handlers\<close>

datatype fs_node = File string | Directory

type_synonym filesystem = "string \<rightharpoonup> fs_node"

datatype proxy_body = ProxyStream string | ProxyError string

text \<open>
  The audio proxy. \<open>filename = None\<close> stands for a missing or repeated query parameter.
  Streaming a directory fails in the stream, which answers 500.
\<close>

definition audio_proxy_handler ::
  "string \<Rightarrow> filesystem \<Rightarrow> string \<Rightarrow> string option \<Rightarrow> nat \<times> proxy_body" where
  "audio_proxy_handler cwd fs method filename =
     (if method \<noteq> ''GET'' then (405, ProxyError ''Method not allowed'')
      else (case filename of
              None \<Rightarrow> (400, ProxyError ''Missing or invalid filename parameter'')
            | Some f \<Rightarrow>
                if f = [] then (400, ProxyError ''Missing or invalid filename parameter'')
                else (case fs (audio_file_path cwd f) of
                        None \<Rightarrow> (404, ProxyError ''File not found'')
                      | Some Directory \<Rightarrow> (500, ProxyError ''Error streaming file'')
                      | Some (File bytes) \<Rightarrow> (200, ProxyStream bytes))))"

text \<open>
  The check-audio handler reads the first 44 bytes; the fields of its answer are
  \<open>exists\<close>, \<open>size\<close>, \<open>isReadable\<close>, \<open>bytesRead\<close> and \<open>wavInfo.isValidWav\<close>.
\<close>

datatype check_body = CheckInfo bool nat bool nat "bool option" | CheckError string

definition check_audio_handler ::
  "string \<Rightarrow> filesystem \<Rightarrow> string \<Rightarrow> string option \<Rightarrow> nat \<times> check_body" where
  "check_audio_handler cwd fs method filename =
     (if method \<noteq> ''GET'' then (405, CheckError ''Method not allowed'')
      else (case filename of
              None \<Rightarrow> (400, CheckError ''Missing or invalid filename parameter'')
            | Some f \<Rightarrow>
                if f = [] then (400, CheckError ''Missing or invalid filename parameter'')
                else (case fs (audio_file_path cwd f) of
                        None \<Rightarrow> (404, CheckError ''File not found'')
                      | Some Directory \<Rightarrow> (500, CheckError ''Internal server error'')
                      | Some (File bytes) \<Rightarrow>
                          (let buffer = take 44 bytes;
                               bytesRead = length buffer;
                               wavInfo = (if bytesRead = 44
                                          then Some (take 4 buffer = ''RIFF''
                                                     \<and> take 4 (drop 8 buffer) = ''WAVE'')
                                          else None)
                           in (200, CheckInfo True (length bytes) (0 < bytesRead) bytesRead
                                      wavInfo)))))"

section \<open>Server: the generate handler (second part of pages/api/audio-proxy.ts)\<close>

text \<open>
  What the handler sees of one run of the synthesis script: whether \<open>exec\<close> reported an
  error (a non-zero exit), the two output streams, and the output file afterwards
  (\<open>None\<close>: it does not exist). Writing the context file and creating directories are not
  modelled.
\<close>

record backend_run =
  exec_error :: bool
  stdout :: string
  stderr :: string
  outputFile :: "string option"

record gen_request =
  req_method :: string
  req_text :: "string option"
  req_speaker :: "int option"

text \<open>The JSON answers: \<open>{audioUrl, sampleRate, warnings}\<close> or \<open>{error, details}\<close>.\<close>

datatype gen_body = AudioBody string int "string option" | ErrorBody string "string option"

fun js_includes :: "string \<Rightarrow> string \<Rightarrow> bool" where
  "js_includes pat [] = (pat = [])"
| "js_includes pat (c # cs) = (take (length pat) (c # cs) = pat \<or> js_includes pat cs)"

definition generate_handler :: "gen_request \<Rightarrow> string \<Rightarrow> backend_run \<Rightarrow> nat \<times> gen_body" where
  "generate_handler req audioId run =
     (if req_method req \<noteq> ''POST'' then (405, ErrorBody ''Method not allowed'' None)
      else if req_text req = None \<or> req_text req = Some [] \<or> req_speaker req = None then
        (400, ErrorBody ''Missing required parameters'' None)
      else if exec_error run then
        (case outputFile run of
           None \<Rightarrow> (500, ErrorBody ''Failed to generate audio'' (Some (stderr run)))
         | Some bytes \<Rightarrow>
             if 0 < length bytes then
               (200, AudioBody (''/audio/'' @ audioId @ ''.wav'') 24000
                       (Some (if stderr run \<noteq> [] then stderr run
                              else ''Warning encountered but audio generated successfully'')))
             else (500, ErrorBody ''Failed to generate audio'' (Some (stderr run))))
      else
        (case outputFile run of
           None \<Rightarrow> (500, ErrorBody ''Output file was not created'' None)
         | Some bytes \<Rightarrow>
             if length bytes = 0 then (500, ErrorBody ''Generated audio file is empty'' None)
             else
               (200, AudioBody (''/audio/'' @ audioId @ ''.wav'') 24000
                       (if js_includes ''Warning:'' (stdout run) \<or> stderr run \<noteq> []
                        then Some (if stderr run \<noteq> [] then stderr run else stdout run)
                        else None))))"

section \<open>Client: generateSpeech\<close>

text \<open>
  What the client reads of the answer to \<open>POST /api/generate\<close>: the request failed or the
  body was not JSON; a status outside 200..299 with the \<open>error\<close> field; or a success with
  \<open>audioUrl\<close> and \<open>warnings\<close>. A status in 200..299 with an error body, which the handler
  never sends, has no counterpart.
\<close>

datatype gen_reply = GenNetworkError string | GenNotOk "string option" | GenOk string "string option"

fun reply_of_response :: "nat \<times> gen_body \<Rightarrow> gen_reply option" where
  "reply_of_response (st, AudioBody u sr w) =
     (if 200 \<le> st \<and> st \<le> 299 then Some (GenOk u w) else Some (GenNotOk None))"
| "reply_of_response (st, ErrorBody e d) =
     (if 200 \<le> st \<and> st \<le> 299 then None else Some (GenNotOk (Some e)))"

text \<open>
  What the client reads of the answer of check-audio: the request or the parsing failed,
  or the fields \<open>exists\<close> and \<open>isReadable\<close> (absent fields are falsy).
\<close>

datatype check_reply = CheckFailed | CheckData bool bool

fun check_reply_of :: "nat \<times> check_body \<Rightarrow> check_reply" where
  "check_reply_of (st, CheckInfo ex sz rd br wav) = CheckData ex rd"
| "check_reply_of (st, CheckError e) = CheckData False False"

record gen_env =
  generate_reply :: gen_reply
  check_audio_reply :: check_reply
  audio_env :: fetch_env

text \<open>
  \<open>!inputText.trim()\<close>: the text is empty or consists of white space only. \<open>trim\<close>
  strips the white space and the line terminators of ECMAScript: U+0009 to U+000D,
  U+0020, U+00A0, U+1680, U+2000 to U+200A, U+2028, U+2029, U+202F, U+205F, U+3000 and
  U+FEFF. In UTF-8 these are one, two or three bytes long.
\<close>

definition is_ws1 :: "char \<Rightarrow> bool" where
  "is_ws1 a \<longleftrightarrow> a \<in> set [CHR 0x09, CHR 0x0A, CHR 0x0B, CHR 0x0C, CHR 0x0D, CHR 0x20]"

definition is_ws2 :: "char \<Rightarrow> char \<Rightarrow> bool" where
  "is_ws2 a b \<longleftrightarrow> a = CHR 0xC2 \<and> b = CHR 0xA0"

definition is_ws3 :: "char \<Rightarrow> char \<Rightarrow> char \<Rightarrow> bool" where
  "is_ws3 a b c \<longleftrightarrow>
     [a, b, c] \<in> set [[CHR 0xE1, CHR 0x9A, CHR 0x80],
                      [CHR 0xE2, CHR 0x80, CHR 0x80], [CHR 0xE2, CHR 0x80, CHR 0x81],
                      [CHR 0xE2, CHR 0x80, CHR 0x82], [CHR 0xE2, CHR 0x80, CHR 0x83],
                      [CHR 0xE2, CHR 0x80, CHR 0x84], [CHR 0xE2, CHR 0x80, CHR 0x85],
                      [CHR 0xE2, CHR 0x80, CHR 0x86], [CHR 0xE2, CHR 0x80, CHR 0x87],
                      [CHR 0xE2, CHR 0x80, CHR 0x88], [CHR 0xE2, CHR 0x80, CHR 0x89],
                      [CHR 0xE2, CHR 0x80, CHR 0x8A],
                      [CHR 0xE2, CHR 0x80, CHR 0xA8], [CHR 0xE2, CHR 0x80, CHR 0xA9],
                      [CHR 0xE2, CHR 0x80, CHR 0xAF], [CHR 0xE2, CHR 0x81, CHR 0x9F],
                      [CHR 0xE3, CHR 0x80, CHR 0x80], [CHR 0xEF, CHR 0xBB, CHR 0xBF]]"

fun js_blank :: "string \<Rightarrow> bool" where
  "js_blank [] = True"
| "js_blank [a] = is_ws1 a"
| "js_blank [a, b] = (if is_ws1 a then js_blank [b] else is_ws2 a b)"
| "js_blank (a # b # c # cs) =
     (if is_ws1 a then js_blank (b # c # cs)
      else if is_ws2 a b then js_blank (c # cs)
      else is_ws3 a b c \<and> js_blank cs)"

text \<open>The body sent to the server; the context and the sampling parameters only reach
  the command line of the script.\<close>

definition generate_request :: "ui_state \<Rightarrow> gen_request" where
  "generate_request s =
     \<lparr>req_method = ''POST'', req_text = Some (inputText s),
      req_speaker = Some (selectedSpeaker s)\<rparr>"

definition append_segment :: "string \<Rightarrow> Segment \<Rightarrow> ContextFile list \<Rightarrow> ContextFile list" where
  "append_segment n seg cs =
     map (\<lambda>ctx. if name ctx = n then ctx\<lparr>segments := segments ctx @ [seg]\<rparr> else ctx) cs"

text \<open>
  The part of \<open>generateSpeech\<close> that runs before the first \<open>await\<close>. The flag tells whether
  the request was sent.
\<close>

definition generateSpeech_start :: "ui_state \<Rightarrow> ui_state \<times> bool" where
  "generateSpeech_start s =
     (if js_blank (inputText s) then
        (toast_error ''Please enter some text to generate speech.'' s, False)
      else
        (s\<lparr>isProcessing := True,
           generationProgress := 20,
           currentSessionName := (case currentSessionName s of
                                    None \<Rightarrow> None
                                  | Some n \<Rightarrow> if n = [] then Some n else None)\<rparr>,
         True))"

text \<open>The verification of the generated file: a failed check raises a toast and goes on.\<close>

definition validate_audio_file :: "string \<Rightarrow> check_reply \<Rightarrow> ui_state \<Rightarrow> ui_state" where
  "validate_audio_file generatedAudioUrl reply s =
     (if generatedAudioUrl = [] then s
      else if last_segment generatedAudioUrl = [] then s
      else (case reply of
              CheckFailed \<Rightarrow> s
            | CheckData ex readable \<Rightarrow>
                if ex \<and> readable then s
                else toast_error ''Generated audio file could not be validated'' s))"

text \<open>
  The values a running \<open>generateSpeech\<close> reads (\<open>contexts\<close>, \<open>activeContext\<close>, the text,
  the speaker, the progress) are those of the render in which it was started: \<open>snap\<close>. The
  setters act on the state at the time they are called: \<open>s\<close>.
\<close>

definition add_generated_segment :: "ui_state \<Rightarrow> string \<Rightarrow> ui_state \<Rightarrow> ui_state" where
  "add_generated_segment snap generatedAudioUrl s =
     (case activeContext snap of
        None \<Rightarrow> s
      | Some active \<Rightarrow>
          (let newSegment = \<lparr>speaker = selectedSpeaker snap, text_field = inputText snap,
                             audio = None, audioPath = Some generatedAudioUrl\<rparr>;
               updatedContexts = append_segment (name active) newSegment (contexts snap);
               s1 = s\<lparr>contexts := updatedContexts\<rparr>
           in case find_context (name active) updatedContexts of
                None \<Rightarrow> s1
              | Some updatedActiveContext \<Rightarrow> s1\<lparr>activeContext := Some updatedActiveContext\<rparr>))"

definition generateSpeech_body :: "ui_state \<Rightarrow> gen_env \<Rightarrow> ui_state \<Rightarrow> unit completion \<times> ui_state" where
  "generateSpeech_body snap env s =
     (case generate_reply env of
        GenNetworkError e \<Rightarrow> (Throws e, s)
      | GenNotOk err \<Rightarrow>
          (Throws (case err of
                     None \<Rightarrow> ''Failed to generate audio''
                   | Some m \<Rightarrow> if m = [] then ''Failed to generate audio'' else m), s)
      | GenOk generatedAudioUrl warnings \<Rightarrow>
          (let s1 = s\<lparr>generationProgress := 60\<rparr>;
               s2 = (if warnings \<noteq> None \<and> warnings \<noteq> Some [] then
                       toast_warning
                         ''Audio generated with warnings, but should play correctly'' s1
                     else s1);
               s3 = s2\<lparr>audioUrl := Some generatedAudioUrl\<rparr>;
               s4 = validate_audio_file generatedAudioUrl (check_audio_reply env) s3;
               s5 = s4\<lparr>generationProgress := 80\<rparr>;
               (fetched, s6) = fetchAudioBuffer (audio_env env) generatedAudioUrl s5
           in case fetched of
                Throws e \<Rightarrow> (Throws e, s6)
              | Returns audioBuffer \<Rightarrow>
                  (let s7 = (case audioBuffer of
                               Some buf \<Rightarrow> s6\<lparr>audioData := Some buf, generationProgress := 100\<rparr>
                             | None \<Rightarrow> s6\<lparr>generationProgress := 100,
                                          timers := timers s6 @ [generatedAudioUrl]\<rparr>);
                       s8 = toast_success ''Audio generated successfully!'' s7
                   in (Returns (), add_generated_segment snap generatedAudioUrl s8))))"

text \<open>The \<open>catch\<close> and \<open>finally\<close> of \<open>generateSpeech\<close>.\<close>

definition generateSpeech_finish :: "ui_state \<Rightarrow> gen_env \<Rightarrow> ui_state \<Rightarrow> ui_state" where
  "generateSpeech_finish snap env s =
     (let (outcome, s1) = generateSpeech_body snap env s;
          s2 = (case outcome of Returns u \<Rightarrow> s1 | Throws e \<Rightarrow> toast_error e s1)
      in s2\<lparr>isProcessing := False,
            generationProgress := (if generationProgress snap < 100 then 0
                                   else generationProgress s2)\<rparr>)"

text \<open>A whole request, with nothing else happening in between.\<close>

definition generateSpeech :: "gen_env \<Rightarrow> ui_state \<Rightarrow> ui_state" where
  "generateSpeech env s =
     (case generateSpeech_start s of
        (s1, False) \<Rightarrow> s1
      | (s1, True) \<Rightarrow> generateSpeech_finish s env s1)"

text \<open>The callback handed to \<open>setTimeout\<close>: one more retrieval, one second later.\<close>

definition retry_visualization :: "fetch_env \<Rightarrow> string \<Rightarrow> ui_state \<Rightarrow> ui_state" where
  "retry_visualization env url s =
     (case fetchAudioBuffer env url s of
        (Returns (Some retryBuffer), s1) \<Rightarrow> s1\<lparr>audioData := Some retryBuffer\<rparr>
      | (other, s1) \<Rightarrow> s1)"

text \<open>
  The Generate button carries \<open>disabled={isProcessing}\<close> and is the only caller of
  \<open>generateSpeech\<close>: a click on the disabled button does not reach the handler.
\<close>

definition clickGenerate :: "ui_state \<Rightarrow> ui_state \<times> bool" where
  "clickGenerate s = (if isProcessing s then (s, False) else generateSpeech_start s)"

section \<open>The ways a retrieval ends\<close>

text \<open>
  A call of \<open>fetchAudioBuffer\<close> that misses the cache ends in one of three ways, named
  here after the steps of the retrieval protocol: the bytes were retrieved (over the direct
  URL or, failing that, the proxy URL) and decoded; or they were not, and the existence
  probe succeeded; or the probe failed too.
\<close>

datatype retrieval = Decoded samples | Undecodable | Unreachable

definition probe_ok :: "fetch_env \<Rightarrow> string \<Rightarrow> bool" where
  "probe_ok env url \<longleftrightarrow>
     (case net env HEAD (url @ ''?t='' @ ts_probe env) of
        NetworkError e \<Rightarrow> False
      | Response r \<Rightarrow> response_ok r)"

definition retrieved_bytes :: "fetch_env \<Rightarrow> string \<Rightarrow> string option" where
  "retrieved_bytes env url =
     (case net env GET (url @ ''?t='' @ ts_fetch env) of
        Response r \<Rightarrow> if response_ok r then body r else
           (case net env GET (getProxyAudioUrl url) of
              Response r' \<Rightarrow> if response_ok r' then body r' else None
            | NetworkError e \<Rightarrow> None)
      | NetworkError e \<Rightarrow>
           (case net env GET (getProxyAudioUrl url) of
              Response r' \<Rightarrow> if response_ok r' then body r' else None
            | NetworkError e \<Rightarrow> None))"

definition retrieval_outcome :: "fetch_env \<Rightarrow> string \<Rightarrow> retrieval" where
  "retrieval_outcome env url =
     (let decoded = (case retrieved_bytes env url of
                       None \<Rightarrow> None
                     | Some bytes \<Rightarrow>
                         if bytes \<noteq> [] \<and> audioContextAvailable env
                         then decodeAudioData env bytes else None)
      in case decoded of
           Some d \<Rightarrow> Decoded d
         | None \<Rightarrow> if probe_ok env url then Undecodable else Unreachable)"

fun retrieval_data :: "retrieval \<Rightarrow> samples" where
  "retrieval_data (Decoded d) = d"
| "retrieval_data Undecodable = probe_placeholder"
| "retrieval_data Unreachable = last_resort_placeholder"

text \<open>The segment that a successful request appends to the active context.\<close>

definition new_segment :: "ui_state \<Rightarrow> string \<Rightarrow> Segment" where
  "new_segment s url = \<lparr>speaker = selectedSpeaker s, text_field = inputText s,
                         audio = None, audioPath = Some url\<rparr>"

section \<open>Example inputs\<close>

definition example_segment :: Segment where
  "example_segment = \<lparr>speaker = 0, text_field = ''Hello there'', audio = None,
                       audioPath = Some ''/audio/abc123.wav''\<rparr>"

definition example_state :: ui_state where
  "example_state = init_state\<lparr>contexts := [\<lparr>name = ''A'', segments = [example_segment]\<rparr>],
                               activeContext := Some \<lparr>name = ''A'', segments = [example_segment]\<rparr>\<rparr>"


text \<open>
  Three environments: one in which every request fails, one in which the file is served
  and decodes, and one in which it is served and does not decode.
\<close>

definition example_url :: string where
  "example_url = ''/audio/abc123.wav''"

definition dead_env :: fetch_env where
  "dead_env = \<lparr>ts_fetch = ''1700000000000'', ts_probe = ''1700000000001'',
                net = (\<lambda>m u. NetworkError ''Failed to fetch''),
                audioContextAvailable = True,
                decodeAudioData = (\<lambda>bytes. None)\<rparr>"

definition good_env :: fetch_env where
  "good_env = \<lparr>ts_fetch = ''1700000001000'', ts_probe = ''1700000001001'',
                net = (\<lambda>m u. Response \<lparr>status = 200, body = Some ''RIFF....WAVEfmt ''\<rparr>),
                audioContextAvailable = True,
                decodeAudioData = (\<lambda>bytes. Some [0, 0.5, - 0.5])\<rparr>"

definition undecodable_env :: fetch_env where
  "undecodable_env = \<lparr>ts_fetch = ''1700000002000'', ts_probe = ''1700000002001'',
                net = (\<lambda>m u. Response \<lparr>status = 200, body = Some ''not a wave file''\<rparr>),
                audioContextAvailable = True,
                decodeAudioData = (\<lambda>bytes. None)\<rparr>"

text \<open>
  A state with text typed in, the state it is in while its request is in flight, and runs
  of the synthesis script: one that exits with zero and leaves a non-empty file that is not
  a RIFF/WAVE container, one that exits with zero and leaves no file, and one that exits
  with an error after writing the file. Each run comes with the replies the client then
  receives.
\<close>

definition typed_state :: ui_state where
  "typed_state = example_state\<lparr>inputText := ''Hello there''\<rparr>"

definition in_flight_state :: ui_state where
  "in_flight_state = fst (generateSpeech_start typed_state)"

definition bad_artifact :: string where
  "bad_artifact = ''this file is 48 bytes long and is no RIFF holder''"

definition example_fs :: filesystem where
  "example_fs = [''/srv/csm-ui/public/audio/abc123.wav'' \<mapsto> File bad_artifact,
                 ''/srv/csm-ui/public/audio'' \<mapsto> Directory,
                 ''/srv/csm-ui/public'' \<mapsto> Directory]"

definition clean_run :: backend_run where
  "clean_run = \<lparr>exec_error = False, stdout = ''done'', stderr = '''',
                 outputFile = Some bad_artifact\<rparr>"

definition bad_artifact_env :: gen_env where
  "bad_artifact_env =
     \<lparr>generate_reply = GenOk ''/audio/abc123.wav'' None,
      check_audio_reply = CheckData True True,
      audio_env = undecodable_env\<rparr>"

definition missing_run :: backend_run where
  "missing_run = \<lparr>exec_error = False, stdout = ''done'', stderr = '''', outputFile = None\<rparr>"

definition missing_artifact_env :: gen_env where
  "missing_artifact_env =
     \<lparr>generate_reply = GenNotOk (Some ''Output file was not created''),
      check_audio_reply = CheckFailed,
      audio_env = dead_env\<rparr>"

definition warned_run :: backend_run where
  "warned_run = \<lparr>exec_error = True, stdout = '''',
                  stderr = ''AttributeError: NoneType object has no attribute cadam32bit_grad_fp32'',
                  outputFile = Some ''RIFF....WAVEfmt ''\<rparr>"

definition warned_env :: gen_env where
  "warned_env =
     \<lparr>generate_reply =
        GenOk ''/audio/abc123.wav''
          (Some ''AttributeError: NoneType object has no attribute cadam32bit_grad_fp32''),
      check_audio_reply = CheckData True True,
      audio_env = good_env\<rparr>"

definition unreachable_gen_env :: gen_env where
  "unreachable_gen_env =
     \<lparr>generate_reply = GenOk ''/audio/abc123.wav'' None,
      check_audio_reply = CheckData True True,
      audio_env = dead_env\<rparr>"

section \<open>Properties of the context and session stores\<close>


lemma list_ex_name: "list_ex (\<lambda>ctx. name ctx = n) cs \<longleftrightarrow> (\<exists>c \<in> set cs. name c = n)"
  by (simp add: list_ex_iff)

text \<open>
  C1 (as amended). With a non-empty name in the name field: if a context of that name
  exists, \<open>createContext\<close> raises the error toast for a duplicate name and changes
  nothing else, so the context list, every segment list in it and the active context are
  as before; if none exists, it appends an empty context of that name and makes it the
  active context.
\<close>

theorem createContext_duplicate_or_fresh:
  assumes "newContextName s \<noteq> []"
  shows "if (\<exists>c \<in> set (contexts s). name c = newContextName s)
         then createContext s
                = s\<lparr>toasts := toasts s @ [ToastError ''A context with this name already exists'']\<rparr>
              \<and> contexts (createContext s) = contexts s
              \<and> activeContext (createContext s) = activeContext s
         else contexts (createContext s)
                = contexts s @ [\<lparr>name = newContextName s, segments = []\<rparr>]
              \<and> activeContext (createContext s)
                = Some \<lparr>name = newContextName s, segments = []\<rparr>"
  using assms
  by (simp add: createContext_def toast_error_def toast_success_def list_ex_name Let_def)

theorem createContext_duplicate_or_fresh_witness:
  "contexts (createContext (example_state\<lparr>newContextName := ''A''\<rparr>))
     = [\<lparr>name = ''A'', segments = [example_segment]\<rparr>]
   \<and> activeContext (createContext (example_state\<lparr>newContextName := ''A''\<rparr>))
     = Some \<lparr>name = ''A'', segments = [example_segment]\<rparr>
   \<and> toasts (createContext (example_state\<lparr>newContextName := ''A''\<rparr>))
     = [ToastError ''A context with this name already exists'']
   \<and> contexts (createContext (example_state\<lparr>newContextName := ''B''\<rparr>))
     = [\<lparr>name = ''A'', segments = [example_segment]\<rparr>, \<lparr>name = ''B'', segments = []\<rparr>]
   \<and> activeContext (createContext (example_state\<lparr>newContextName := ''B''\<rparr>))
     = Some \<lparr>name = ''B'', segments = []\<rparr>"
  using createContext_duplicate_or_fresh [of "example_state\<lparr>newContextName := ''A''\<rparr>"]
        createContext_duplicate_or_fresh [of "example_state\<lparr>newContextName := ''B''\<rparr>"]
  by (simp add: example_state_def init_state_def)

text \<open>
  The empty name is not in use in the initial state, and yet \<open>createContext\<close> neither
  adds a context nor changes the active context: the guard on the empty name comes first.
\<close>

theorem createContext_empty_name_counterexample:
  "newContextName init_state \<notin> name ` set (contexts init_state)
   \<and> \<not> (contexts (createContext init_state)
          = contexts init_state @ [\<lparr>name = newContextName init_state, segments = []\<rparr>]
        \<and> activeContext (createContext init_state)
          = Some \<lparr>name = newContextName init_state, segments = []\<rparr>)"
  by (simp add: createContext_def init_state_def toast_error_def)

lemma createContext_empty_name:
  "newContextName s = [] \<Longrightarrow>
     createContext s = s\<lparr>toasts := toasts s @ [ToastError ''Please enter a name for the context'']\<rparr>"
  by (simp add: createContext_def toast_error_def)



section \<open>Properties of the audio retrieval\<close>

lemma cache_get_None:
  "cache_get cache url = None \<longleftrightarrow> cache url = None \<and> url \<notin> set object_prototype_names"
  by (simp add: cache_get_def split: option.splits)

lemma cache_get_stored: "cache_get (cache(url \<mapsto> d)) url = Some (Float32Array d)"
  by (simp add: cache_get_def)

lemma cache_get_inherited:
  "url \<in> set object_prototype_names \<Longrightarrow> cache url = None \<Longrightarrow>
     cache_get cache url = Some (InheritedMember url)"
  by (simp add: cache_get_def)

lemma cache_get_plain:
  "url \<notin> set object_prototype_names \<Longrightarrow>
     cache_get cache url = map_option Float32Array (cache url)"
  by (simp add: cache_get_def split: option.splits)

lemma fetchAudioBuffer_hit:
  "cache_get (audioCache s) url = Some v \<Longrightarrow> fetchAudioBuffer env url s = (Returns (Some v), s)"
  by (simp add: fetchAudioBuffer_def fetchAudioBuffer_try_def)

lemma fetch_direct_or_proxy_bytes:
  "(case fst (fetch_direct_or_proxy env (url @ ''?t='' @ ts_fetch env) (getProxyAudioUrl url)) of
      Returns r \<Rightarrow> body r | Throws e \<Rightarrow> None) = retrieved_bytes env url"
  by (simp add: fetch_direct_or_proxy_def retrieved_bytes_def Let_def
           split: fetch_result.splits)

lemma fetchAudioBuffer_miss_result:
  assumes "cache_get (audioCache s) url = None"
  shows "fst (fetchAudioBuffer env url s)
           = Returns (Some (Float32Array (retrieval_data (retrieval_outcome env url))))"
  using assms fetch_direct_or_proxy_bytes [of env url]
  by (cases "fetch_direct_or_proxy env (url @ ''?t='' @ ts_fetch env) (getProxyAudioUrl url)")
     (auto simp: fetchAudioBuffer_def fetchAudioBuffer_try_def fetchAudioBuffer_catch_def
           retrieval_outcome_def probe_ok_def toast_warning_def Let_def
           split: completion.splits option.splits fetch_result.splits if_splits)

lemma fetchAudioBuffer_miss_cache:
  assumes "cache_get (audioCache s) url = None"
  shows "audioCache (snd (fetchAudioBuffer env url s)) =
           (case retrieval_outcome env url of
              Unreachable \<Rightarrow> audioCache s
            | other \<Rightarrow> (audioCache s)(url \<mapsto> retrieval_data other))"
  using assms fetch_direct_or_proxy_bytes [of env url]
  by (cases "fetch_direct_or_proxy env (url @ ''?t='' @ ts_fetch env) (getProxyAudioUrl url)")
     (auto simp: fetchAudioBuffer_def fetchAudioBuffer_try_def fetchAudioBuffer_catch_def
           retrieval_outcome_def probe_ok_def toast_warning_def Let_def
           split: completion.splits option.splits fetch_result.splits if_splits)

lemma fetchAudioBuffer_miss_io:
  assumes "cache_get (audioCache s) url = None"
  shows "\<exists>more. io_log (snd (fetchAudioBuffer env url s)) = io_log s @ IoAudioElement url # more"
  using assms
  by (cases "fetch_direct_or_proxy env (url @ ''?t='' @ ts_fetch env) (getProxyAudioUrl url)")
     (auto simp: fetchAudioBuffer_def fetchAudioBuffer_try_def fetchAudioBuffer_catch_def
           toast_warning_def Let_def
           split: completion.splits option.splits fetch_result.splits if_splits)

text \<open>What the cache holds for the reference after a call that missed it.\<close>

lemma fetchAudioBuffer_miss_lookup:
  assumes "cache_get (audioCache s) url = None"
  shows "cache_get (audioCache (snd (fetchAudioBuffer env url s))) url
           = (if retrieval_outcome env url = Unreachable then None
              else Some (Float32Array (retrieval_data (retrieval_outcome env url))))"
  using assms
  by (simp add: fetchAudioBuffer_miss_cache [OF assms] cache_get_stored
           split: retrieval.splits)

lemma length_last_resort_placeholder: "length last_resort_placeholder = 72000"
  by (simp add: last_resort_placeholder_def)

lemma length_probe_placeholder: "length probe_placeholder = 120000"
  by (simp add: probe_placeholder_def)

lemma dead_env_outcome: "retrieval_outcome dead_env url = Unreachable"
  by (simp add: retrieval_outcome_def retrieved_bytes_def probe_ok_def dead_env_def)

lemma good_env_outcome: "retrieval_outcome good_env url = Decoded [0, 0.5, - 0.5]"
  by (simp add: retrieval_outcome_def retrieved_bytes_def probe_ok_def good_env_def response_ok_def)

lemma undecodable_env_outcome: "retrieval_outcome undecodable_env url = Undecodable"
  by (simp add: retrieval_outcome_def retrieved_bytes_def probe_ok_def undecodable_env_def response_ok_def)

lemma example_url_plain: "example_url \<notin> set object_prototype_names"
  by (simp add: example_url_def object_prototype_names_def)

lemma init_cache_empty: "cache_get (audioCache init_state) example_url = None"
  by (simp add: cache_get_None example_url_plain) (simp add: init_state_def)

text \<open>
  C4 (as amended). Two calls of \<open>fetchAudioBuffer\<close> with the same reference return the
  same data whenever, after the first call, a lookup of the reference in the cache finds
  something (the first call was a hit, a decode or the existence-probe placeholder),
  whatever the network does during the second call; after the unreachable-artifact
  placeholder, which is not cached, the second call returns the same data if its
  retrieval ends the way the first one did.
\<close>

theorem fetchAudioBuffer_idempotent:
  assumes "cache_get (audioCache (snd (fetchAudioBuffer env1 url s))) url \<noteq> None
           \<or> retrieval_outcome env2 url = retrieval_outcome env1 url"
  shows "fst (fetchAudioBuffer env2 url (snd (fetchAudioBuffer env1 url s)))
           = fst (fetchAudioBuffer env1 url s)"
proof (cases "cache_get (audioCache s) url")
  case (Some v)
  then show ?thesis by (simp add: fetchAudioBuffer_hit)
next
  case None
  note miss = None
  show ?thesis
  proof (cases "retrieval_outcome env1 url = Unreachable")
    case False
    then have "cache_get (audioCache (snd (fetchAudioBuffer env1 url s))) url
                 = Some (Float32Array (retrieval_data (retrieval_outcome env1 url)))"
      by (simp add: fetchAudioBuffer_miss_lookup [OF miss])
    then show ?thesis
      using miss by (simp add: fetchAudioBuffer_hit fetchAudioBuffer_miss_result)
  next
    case True
    then have unchanged: "cache_get (audioCache (snd (fetchAudioBuffer env1 url s))) url = None"
      by (simp add: fetchAudioBuffer_miss_lookup [OF miss])
    with assms have "retrieval_outcome env2 url = retrieval_outcome env1 url" by simp
    then show ?thesis
      using miss unchanged by (simp add: fetchAudioBuffer_miss_result)
  qed
qed

theorem fetchAudioBuffer_idempotent_witness:
  "cache_get (audioCache (snd (fetchAudioBuffer undecodable_env example_url init_state)))
     example_url \<noteq> None
   \<and> fst (fetchAudioBuffer good_env example_url
             (snd (fetchAudioBuffer undecodable_env example_url init_state)))
       = Returns (Some (Float32Array probe_placeholder))
   \<and> fst (fetchAudioBuffer dead_env example_url
             (snd (fetchAudioBuffer dead_env example_url init_state)))
       = Returns (Some (Float32Array last_resort_placeholder))"
proof -
  have cached: "cache_get (audioCache (snd (fetchAudioBuffer undecodable_env example_url init_state)))
                  example_url \<noteq> None"
    by (simp add: fetchAudioBuffer_miss_lookup [OF init_cache_empty] undecodable_env_outcome)
  have first: "fst (fetchAudioBuffer undecodable_env example_url init_state)
                 = Returns (Some (Float32Array probe_placeholder))"
    by (simp add: fetchAudioBuffer_miss_result [OF init_cache_empty] undecodable_env_outcome)
  have dead: "fst (fetchAudioBuffer dead_env example_url init_state)
                = Returns (Some (Float32Array last_resort_placeholder))"
    by (simp add: fetchAudioBuffer_miss_result [OF init_cache_empty] dead_env_outcome)
  show ?thesis
    using cached first dead
      fetchAudioBuffer_idempotent [of undecodable_env example_url init_state good_env]
      fetchAudioBuffer_idempotent [of dead_env example_url init_state dead_env]
    by simp
qed

text \<open>
  The file is unreachable during the first call and served during the second: the first
  call returns the last-resort placeholder, the second the decoded samples.
\<close>

theorem fetchAudioBuffer_not_idempotent_counterexample:
  "fst (fetchAudioBuffer good_env example_url
          (snd (fetchAudioBuffer dead_env example_url init_state)))
     \<noteq> fst (fetchAudioBuffer dead_env example_url init_state)"
proof -
  have first: "fst (fetchAudioBuffer dead_env example_url init_state)
                 = Returns (Some (Float32Array last_resort_placeholder))"
    by (simp add: fetchAudioBuffer_miss_result [OF init_cache_empty] dead_env_outcome)
  have "cache_get (audioCache (snd (fetchAudioBuffer dead_env example_url init_state)))
          example_url = None"
    by (simp add: fetchAudioBuffer_miss_lookup [OF init_cache_empty] dead_env_outcome)
  then have second: "fst (fetchAudioBuffer good_env example_url
                            (snd (fetchAudioBuffer dead_env example_url init_state)))
                       = Returns (Some (Float32Array [0, 0.5, - 0.5]))"
    by (simp add: fetchAudioBuffer_miss_result good_env_outcome)
  have "length last_resort_placeholder \<noteq> length [0, 0.5, - 0.5 :: real]"
    by (simp add: length_last_resort_placeholder)
  then have "last_resort_placeholder \<noteq> [0, 0.5, - 0.5]" by metis
  then show ?thesis using first second by simp
qed

text \<open>
  C5 (as amended). After a call of \<open>fetchAudioBuffer\<close> that returns what a lookup in the
  cache found, a successful decode or the existence-probe placeholder, a lookup of the
  reference in the cache yields the returned data, and every later call returns it and
  leaves the state, with its record of I/O, untouched. The unreachable-artifact
  placeholder is returned without being stored: the cache is as before.
\<close>

theorem fetchAudioBuffer_caches:
  "if cache_get (audioCache s) url = None \<and> retrieval_outcome env url = Unreachable
   then fst (fetchAudioBuffer env url s) = Returns (Some (Float32Array last_resort_placeholder))
        \<and> audioCache (snd (fetchAudioBuffer env url s)) = audioCache s
   else (\<exists>v. fst (fetchAudioBuffer env url s) = Returns (Some v)
            \<and> cache_get (audioCache (snd (fetchAudioBuffer env url s))) url = Some v
            \<and> (\<forall>env'. fetchAudioBuffer env' url (snd (fetchAudioBuffer env url s))
                         = (Returns (Some v), snd (fetchAudioBuffer env url s))))"
proof (cases "cache_get (audioCache s) url")
  case (Some v)
  then show ?thesis by (simp add: fetchAudioBuffer_hit)
next
  case None
  show ?thesis
  proof (cases "retrieval_outcome env url = Unreachable")
    case True
    then show ?thesis using None
      by (simp add: fetchAudioBuffer_miss_result fetchAudioBuffer_miss_cache)
  next
    case False
    then have "cache_get (audioCache (snd (fetchAudioBuffer env url s))) url
                 = Some (Float32Array (retrieval_data (retrieval_outcome env url)))"
      by (simp add: fetchAudioBuffer_miss_lookup [OF None])
    then show ?thesis using None False
      by (simp add: fetchAudioBuffer_miss_result fetchAudioBuffer_hit)
  qed
qed

text \<open>
  For a reference that names no inherited member, the lookup is the stored array: the
  returned array is then the own entry of the cache.
\<close>

lemma fetchAudioBuffer_caches_entry:
  assumes "url \<notin> set object_prototype_names"
    and "\<not> (audioCache s url = None \<and> retrieval_outcome env url = Unreachable)"
  shows "\<exists>d. fst (fetchAudioBuffer env url s) = Returns (Some (Float32Array d))
            \<and> audioCache (snd (fetchAudioBuffer env url s)) url = Some d"
proof (cases "audioCache s url")
  case (Some d)
  then have "cache_get (audioCache s) url = Some (Float32Array d)"
    by (simp add: cache_get_def)
  then show ?thesis using Some by (simp add: fetchAudioBuffer_hit)
next
  case None
  then have miss: "cache_get (audioCache s) url = None"
    using assms(1) by (simp add: cache_get_None)
  have "retrieval_outcome env url \<noteq> Unreachable" using assms(2) None by simp
  then show ?thesis
    by (simp add: fetchAudioBuffer_miss_result [OF miss] fetchAudioBuffer_miss_cache [OF miss]
             split: retrieval.splits)
qed

theorem fetchAudioBuffer_caches_witness:
  "fst (fetchAudioBuffer undecodable_env example_url init_state)
     = Returns (Some (Float32Array probe_placeholder))
   \<and> cache_get (audioCache (snd (fetchAudioBuffer undecodable_env example_url init_state)))
       example_url
       = Some (Float32Array probe_placeholder)
   \<and> fetchAudioBuffer dead_env example_url (snd (fetchAudioBuffer undecodable_env example_url init_state))
       = (Returns (Some (Float32Array probe_placeholder)),
          snd (fetchAudioBuffer undecodable_env example_url init_state))
   \<and> fst (fetchAudioBuffer good_env example_url init_state)
       = Returns (Some (Float32Array [0, 0.5, - 0.5]))
   \<and> cache_get (audioCache (snd (fetchAudioBuffer good_env example_url init_state))) example_url
       = Some (Float32Array [0, 0.5, - 0.5])
   \<and> fst (fetchAudioBuffer dead_env example_url init_state)
       = Returns (Some (Float32Array last_resort_placeholder))
   \<and> audioCache (snd (fetchAudioBuffer dead_env example_url init_state)) = audioCache init_state"
  using fetchAudioBuffer_caches [of init_state example_url undecodable_env]
        fetchAudioBuffer_caches [of init_state example_url good_env]
        fetchAudioBuffer_caches [of init_state example_url dead_env]
  by (auto simp: init_cache_empty undecodable_env_outcome good_env_outcome dead_env_outcome
                 fetchAudioBuffer_miss_result)

text \<open>
  With every request failing, the placeholder returned is not in the cache afterwards,
  and a second call performs I/O again.
\<close>

theorem fetchAudioBuffer_last_resort_not_cached_counterexample:
  "fst (fetchAudioBuffer dead_env example_url init_state)
     = Returns (Some (Float32Array last_resort_placeholder))
   \<and> cache_get (audioCache (snd (fetchAudioBuffer dead_env example_url init_state))) example_url
       \<noteq> Some (Float32Array last_resort_placeholder)
   \<and> audioCache (snd (fetchAudioBuffer dead_env example_url init_state)) example_url
       \<noteq> Some last_resort_placeholder
   \<and> io_log (snd (fetchAudioBuffer dead_env example_url
                     (snd (fetchAudioBuffer dead_env example_url init_state))))
       \<noteq> io_log (snd (fetchAudioBuffer dead_env example_url init_state))"
proof -
  let ?s1 = "snd (fetchAudioBuffer dead_env example_url init_state)"
  have a: "fst (fetchAudioBuffer dead_env example_url init_state)
             = Returns (Some (Float32Array last_resort_placeholder))"
    by (simp add: fetchAudioBuffer_miss_result [OF init_cache_empty] dead_env_outcome)
  have b: "cache_get (audioCache ?s1) example_url = None"
    by (simp add: fetchAudioBuffer_miss_lookup [OF init_cache_empty] dead_env_outcome)
  then have b': "audioCache ?s1 example_url = None"
    by (simp add: cache_get_None)
  obtain more where "io_log (snd (fetchAudioBuffer dead_env example_url ?s1))
                       = io_log ?s1 @ IoAudioElement example_url # more"
    using fetchAudioBuffer_miss_io [OF b] by blast
  then have c: "io_log (snd (fetchAudioBuffer dead_env example_url ?s1)) \<noteq> io_log ?s1"
    by simp
  show ?thesis using a b b' c by simp
qed

lemma fetchAudioBuffer_returns:
  "\<exists>v s'. fetchAudioBuffer env url s = (Returns (Some v), s')"
proof (cases "cache_get (audioCache s) url")
  case (Some v)
  then show ?thesis by (simp add: fetchAudioBuffer_hit)
next
  case None
  then have "fst (fetchAudioBuffer env url s)
               = Returns (Some (Float32Array (retrieval_data (retrieval_outcome env url))))"
    by (rule fetchAudioBuffer_miss_result)
  then show ?thesis by (cases "fetchAudioBuffer env url s") auto
qed

lemma fetchAudioBuffer_returns_array:
  assumes "url \<notin> set object_prototype_names"
  shows "\<exists>d s'. fetchAudioBuffer env url s = (Returns (Some (Float32Array d)), s')"
proof (cases "cache_get (audioCache s) url")
  case (Some v)
  then obtain d where "v = Float32Array d"
    using assms by (auto simp: cache_get_plain)
  then show ?thesis using Some by (simp add: fetchAudioBuffer_hit)
next
  case None
  then have "fst (fetchAudioBuffer env url s)
               = Returns (Some (Float32Array (retrieval_data (retrieval_outcome env url))))"
    by (rule fetchAudioBuffer_miss_result)
  then show ?thesis by (cases "fetchAudioBuffer env url s") auto
qed

text \<open>
  C10 (as amended). \<open>fetchAudioBuffer\<close> returns a value that is not null and never
  throws, for every URL, state and environment. For every URL that is not the name of a
  member the cache object inherits from \<open>Object.prototype\<close>, the value is an array; when
  the cache has nothing for the URL and the retrieval and the existence probe both fail,
  it is the last-resort placeholder, three seconds at 24000 samples per second of a
  220 Hz sine of amplitude 0.25.
\<close>

theorem fetchAudioBuffer_total:
  "(\<exists>v s'. fetchAudioBuffer env url s = (Returns (Some v), s'))
   \<and> (url \<notin> set object_prototype_names
        \<longrightarrow> (\<exists>d s'. fetchAudioBuffer env url s = (Returns (Some (Float32Array d)), s')))
   \<and> (cache_get (audioCache s) url = None \<and> retrieval_outcome env url = Unreachable
        \<longrightarrow> fst (fetchAudioBuffer env url s)
              = Returns (Some (Float32Array last_resort_placeholder)))
   \<and> length last_resort_placeholder = 3 * 24000
   \<and> (\<forall>i < 3 * 24000. last_resort_placeholder ! i
                          = 0.25 * sin (2 * pi * 220 * (real i / 24000)))"
proof -
  have sine: "\<forall>i < 3 * 24000. last_resort_placeholder ! i
                                  = 0.25 * sin (2 * pi * 220 * (real i / 24000))"
    by (simp add: last_resort_placeholder_def Let_def)
  show ?thesis
    using fetchAudioBuffer_returns [of env url s] fetchAudioBuffer_returns_array [of url env s] sine
    by (simp add: fetchAudioBuffer_miss_result length_last_resort_placeholder)
qed

theorem fetchAudioBuffer_total_witness:
  "example_url \<notin> set object_prototype_names
   \<and> cache_get (audioCache init_state) example_url = None
   \<and> retrieval_outcome dead_env example_url = Unreachable
   \<and> fst (fetchAudioBuffer dead_env example_url init_state)
       = Returns (Some (Float32Array last_resort_placeholder))
   \<and> length last_resort_placeholder = 72000"
  using fetchAudioBuffer_total [of dead_env example_url init_state]
  by (simp add: init_cache_empty dead_env_outcome example_url_plain)

text \<open>
  The URL \<open>constructor\<close> names a member every object inherits: the lookup in the empty
  cache is truthy, and the call returns that member, which is no array, without any I/O,
  although the file is served and decodes.
\<close>

theorem fetchAudioBuffer_inherited_member_counterexample:
  "fetchAudioBuffer good_env ''constructor'' init_state
     = (Returns (Some (InheritedMember ''constructor'')), init_state)"
  by (rule fetchAudioBuffer_hit)
     (simp add: cache_get_def init_state_def object_prototype_names_def)

section \<open>Properties of generateSpeech\<close>

lemma fetchAudioBuffer_result:
  "fetchAudioBuffer env url s = (r, s') \<Longrightarrow> \<exists>d. r = Returns (Some d)"
  using fetchAudioBuffer_returns [of env url s] by auto

lemma fetchAudioBuffer_frame:
  assumes "fetchAudioBuffer env url s = (r, s')"
  shows "contexts s' = contexts s \<and> activeContext s' = activeContext s
       \<and> timers s' = timers s \<and> audioUrl s' = audioUrl s
       \<and> isProcessing s' = isProcessing s \<and> audioData s' = audioData s
       \<and> (\<exists>more. toasts s' = toasts s @ more)"
  using assms
  by (cases "fetch_direct_or_proxy env (url @ ''?t='' @ ts_fetch env) (getProxyAudioUrl url)")
     (auto simp: fetchAudioBuffer_def fetchAudioBuffer_try_def fetchAudioBuffer_catch_def
           toast_warning_def Let_def
           split: completion.splits option.splits fetch_result.splits if_splits)

lemma not_blank_nonempty: "\<not> js_blank t \<Longrightarrow> t \<noteq> []"
  by auto

text \<open>
  Text that consists of white space only is blank, also when the white space is not
  ASCII: a no-break space (U+00A0) followed by a line separator (U+2028), a tab and a
  byte-order mark (U+FEFF). For blank text \<open>generateSpeech\<close> raises its error toast and
  does nothing else.
\<close>

lemma js_blank_unicode:
  "js_blank [CHR 0xC2, CHR 0xA0, CHR 0xE2, CHR 0x80, CHR 0xA8, CHR 0x09,
             CHR 0xEF, CHR 0xBB, CHR 0xBF]"
  by (simp add: is_ws1_def is_ws2_def is_ws3_def)

lemma generateSpeech_blank:
  "js_blank (inputText s) \<Longrightarrow>
     generateSpeech env s
       = s\<lparr>toasts := toasts s @ [ToastError ''Please enter some text to generate speech.'']\<rparr>"
  by (simp add: generateSpeech_def generateSpeech_start_def toast_error_def)

lemma find_context_append_segment:
  "find_context n (append_segment n seg cs)
     = map_option (\<lambda>c. c\<lparr>segments := segments c @ [seg]\<rparr>) (find_context n cs)"
  by (induction cs) (auto simp: find_context_def append_segment_def)

lemma validate_audio_file_frame:
  "contexts (validate_audio_file u c s) = contexts s
   \<and> activeContext (validate_audio_file u c s) = activeContext s
   \<and> timers (validate_audio_file u c s) = timers s
   \<and> audioUrl (validate_audio_file u c s) = audioUrl s
   \<and> audioCache (validate_audio_file u c s) = audioCache s
   \<and> io_log (validate_audio_file u c s) = io_log s
   \<and> (\<exists>more. toasts (validate_audio_file u c s) = toasts s @ more)"
  by (auto simp: validate_audio_file_def toast_error_def split: check_reply.splits)

lemma generateSpeech_started:
  "\<not> js_blank (inputText s) \<Longrightarrow>
     generateSpeech env s
       = generateSpeech_finish s env (fst (generateSpeech_start s))
     \<and> contexts (fst (generateSpeech_start s)) = contexts s
     \<and> activeContext (fst (generateSpeech_start s)) = activeContext s
     \<and> timers (fst (generateSpeech_start s)) = timers s
     \<and> toasts (fst (generateSpeech_start s)) = toasts s
     \<and> isProcessing (fst (generateSpeech_start s))"
  by (simp add: generateSpeech_def generateSpeech_start_def)

lemma generateSpeech_body_ok:
  assumes "generate_reply env = GenOk url w"
  shows "\<exists>d s6. generateSpeech_body snap env s0
           = (Returns (),
              add_generated_segment snap url
                (toast_success ''Audio generated successfully!''
                   (s6\<lparr>audioData := Some d, generationProgress := 100\<rparr>)))
         \<and> contexts s6 = contexts s0 \<and> activeContext s6 = activeContext s0
         \<and> timers s6 = timers s0 \<and> audioUrl s6 = Some url"
proof -
  define s3 where "s3 = (if w \<noteq> None \<and> w \<noteq> Some []
                         then toast_warning
                                ''Audio generated with warnings, but should play correctly''
                                (s0\<lparr>generationProgress := 60\<rparr>)
                         else s0\<lparr>generationProgress := 60\<rparr>)\<lparr>audioUrl := Some url\<rparr>"
  define s5 where "s5 = (validate_audio_file url (check_audio_reply env) s3)\<lparr>generationProgress := 80\<rparr>"
  obtain d s6 where f: "fetchAudioBuffer (audio_env env) url s5 = (Returns (Some d), s6)"
    using fetchAudioBuffer_returns by blast
  have s3: "contexts s3 = contexts s0" "activeContext s3 = activeContext s0"
           "timers s3 = timers s0" "audioUrl s3 = Some url"
    by (simp_all add: s3_def toast_warning_def)
  have s5: "contexts s5 = contexts s0" "activeContext s5 = activeContext s0"
           "timers s5 = timers s0" "audioUrl s5 = Some url"
    using s3 by (simp_all add: s5_def validate_audio_file_frame)
  have frame: "contexts s6 = contexts s0" "activeContext s6 = activeContext s0"
              "timers s6 = timers s0" "audioUrl s6 = Some url"
    using fetchAudioBuffer_frame [OF f] s5 by simp_all
  have "generateSpeech_body snap env s0
           = (Returns (),
              add_generated_segment snap url
                (toast_success ''Audio generated successfully!''
                   (s6\<lparr>audioData := Some d, generationProgress := 100\<rparr>)))"
    using assms f [unfolded s5_def s3_def]
    by (simp add: generateSpeech_body_def Let_def)
  then show ?thesis using frame by blast
qed

text \<open>
  A request whose text is not blank and that the server answers with an audio URL: the
  segment is appended to the context of the active context's name, the active context is
  refreshed from the store, no timer is set, and the last toast reports success.
\<close>

lemma generateSpeech_ok:
  assumes "\<not> js_blank (inputText s)" and "generate_reply env = GenOk url w"
  shows "contexts (generateSpeech env s)
           = (case activeContext s of
                None \<Rightarrow> contexts s
              | Some a \<Rightarrow> append_segment (name a) (new_segment s url) (contexts s))"
    and "activeContext (generateSpeech env s)
           = (case activeContext s of
                None \<Rightarrow> None
              | Some a \<Rightarrow>
                 (case find_context (name a) (contexts s) of
                    None \<Rightarrow> Some a
                  | Some c \<Rightarrow> Some (c\<lparr>segments := segments c @ [new_segment s url]\<rparr>)))"
    and "timers (generateSpeech env s) = timers s"
    and "isProcessing (generateSpeech env s) = False"
    and "audioUrl (generateSpeech env s) = Some url"
    and "audioData (generateSpeech env s) \<noteq> None"
    and "last (toasts (generateSpeech env s)) = ToastSuccess ''Audio generated successfully!''"
proof -
  let ?s0 = "fst (generateSpeech_start s)"
  obtain d s6 where body: "generateSpeech_body s env ?s0
           = (Returns (),
              add_generated_segment s url
                (toast_success ''Audio generated successfully!''
                   (s6\<lparr>audioData := Some d, generationProgress := 100\<rparr>)))"
    and frame: "contexts s6 = contexts ?s0" "activeContext s6 = activeContext ?s0"
               "timers s6 = timers ?s0" "audioUrl s6 = Some url"
    using generateSpeech_body_ok [OF assms(2), of s ?s0] by blast
  have run: "generateSpeech env s = generateSpeech_finish s env ?s0"
    and start: "contexts ?s0 = contexts s" "activeContext ?s0 = activeContext s"
               "timers ?s0 = timers s"
    using generateSpeech_started [OF assms(1)] by simp_all
  show "contexts (generateSpeech env s)
           = (case activeContext s of
                None \<Rightarrow> contexts s
              | Some a \<Rightarrow> append_segment (name a) (new_segment s url) (contexts s))"
    using frame start
    by (simp add: run generateSpeech_finish_def body add_generated_segment_def
          toast_success_def new_segment_def Let_def split: option.splits)
  show "activeContext (generateSpeech env s)
           = (case activeContext s of
                None \<Rightarrow> None
              | Some a \<Rightarrow>
                 (case find_context (name a) (contexts s) of
                    None \<Rightarrow> Some a
                  | Some c \<Rightarrow> Some (c\<lparr>segments := segments c @ [new_segment s url]\<rparr>)))"
    using frame start
    by (simp add: run generateSpeech_finish_def body add_generated_segment_def
          toast_success_def new_segment_def find_context_append_segment Let_def
          split: option.splits)
  show "timers (generateSpeech env s) = timers s"
    using frame start
    by (simp add: run generateSpeech_finish_def body add_generated_segment_def
          toast_success_def Let_def split: option.splits)
  show "isProcessing (generateSpeech env s) = False"
    by (simp add: run generateSpeech_finish_def body Let_def)
  show "audioUrl (generateSpeech env s) = Some url"
    using frame
    by (simp add: run generateSpeech_finish_def body add_generated_segment_def
          toast_success_def Let_def split: option.splits)
  show "audioData (generateSpeech env s) \<noteq> None"
    by (simp add: run generateSpeech_finish_def body add_generated_segment_def
          toast_success_def Let_def split: option.splits)
  show "last (toasts (generateSpeech env s)) = ToastSuccess ''Audio generated successfully!''"
    by (simp add: run generateSpeech_finish_def body add_generated_segment_def
          toast_success_def Let_def split: option.splits)
qed

lemma generateSpeech_rejected:
  assumes "\<not> js_blank (inputText s)"
    and "generate_reply env = GenNotOk (Some m)" and "m \<noteq> []"
  shows "contexts (generateSpeech env s) = contexts s"
    and "activeContext (generateSpeech env s) = activeContext s"
    and "toasts (generateSpeech env s) = toasts s @ [ToastError m]"
    and "io_log (generateSpeech env s) = io_log s"
    and "audioUrl (generateSpeech env s) = audioUrl s"
    and "isProcessing (generateSpeech env s) = False"
  using assms
  by (simp_all add: generateSpeech_def generateSpeech_start_def generateSpeech_finish_def
        generateSpeech_body_def toast_error_def)

lemma generate_handler_no_artifact:
  assumes "t \<noteq> []" and "outputFile run = None \<or> outputFile run = Some []"
  shows "generate_handler \<lparr>req_method = ''POST'', req_text = Some t, req_speaker = Some sp\<rparr>
           audioId run
         = (500, ErrorBody (if exec_error run then ''Failed to generate audio''
                            else if outputFile run = None then ''Output file was not created''
                            else ''Generated audio file is empty'')
                           (if exec_error run then Some (stderr run) else None))"
  using assms by (auto simp: generate_handler_def)

lemma generate_handler_error_but_artifact:
  assumes "t \<noteq> []" and "exec_error run" and "outputFile run = Some bytes" and "bytes \<noteq> []"
  shows "generate_handler \<lparr>req_method = ''POST'', req_text = Some t, req_speaker = Some sp\<rparr>
           audioId run
         = (200, AudioBody (''/audio/'' @ audioId @ ''.wav'') 24000
                   (Some (if stderr run \<noteq> [] then stderr run
                          else ''Warning encountered but audio generated successfully'')))"
  using assms by (simp add: generate_handler_def)

lemma generateSpeech_warning_toast:
  assumes "\<not> js_blank (inputText s)" and "generate_reply env = GenOk url (Some w)" and "w \<noteq> []"
  shows "ToastWarning ''Audio generated with warnings, but should play correctly''
           \<in> set (toasts (generateSpeech env s))"
proof -
  define s3 where "s3 = (toast_warning
                           ''Audio generated with warnings, but should play correctly''
                           ((fst (generateSpeech_start s))\<lparr>generationProgress := 60\<rparr>))
                        \<lparr>audioUrl := Some url\<rparr>"
  define s5 where "s5 = (validate_audio_file url (check_audio_reply env) s3)\<lparr>generationProgress := 80\<rparr>"
  obtain d s6 where f: "fetchAudioBuffer (audio_env env) url s5 = (Returns (Some d), s6)"
    using fetchAudioBuffer_returns by blast
  have "ToastWarning ''Audio generated with warnings, but should play correctly''
          \<in> set (toasts s3)"
    by (simp add: s3_def toast_warning_def)
  moreover obtain m1 where "toasts s5 = toasts s3 @ m1"
    using validate_audio_file_frame [of url "check_audio_reply env" s3] by (auto simp: s5_def)
  moreover obtain m2 where "toasts s6 = toasts s5 @ m2"
    using fetchAudioBuffer_frame [OF f] by auto
  ultimately have in6: "ToastWarning ''Audio generated with warnings, but should play correctly''
          \<in> set (toasts s6)"
    by simp
  have "generateSpeech env s = generateSpeech_finish s env (fst (generateSpeech_start s))"
    using generateSpeech_started [OF assms(1)] by simp
  then show ?thesis
    using assms(2,3) f [unfolded s5_def s3_def] in6
    by (simp add: generateSpeech_finish_def generateSpeech_body_def add_generated_segment_def
          toast_success_def Let_def split: option.splits)
qed

lemma typed_state_fields:
  "contexts typed_state = [\<lparr>name = ''A'', segments = [example_segment]\<rparr>]"
  "activeContext typed_state = Some \<lparr>name = ''A'', segments = [example_segment]\<rparr>"
  "toasts typed_state = []" "timers typed_state = []" "io_log typed_state = []"
  "inputText typed_state = ''Hello there''" "selectedSpeaker typed_state = 0"
  "audioCache typed_state = Map.empty" "isProcessing typed_state = False"
  by (simp_all add: typed_state_def example_state_def init_state_def)

lemma typed_state_not_blank: "\<not> js_blank (inputText typed_state)"
  by (simp add: typed_state_fields is_ws1_def is_ws2_def is_ws3_def)

lemma in_flight_state_fields:
  "isProcessing in_flight_state" "toasts in_flight_state = []"
  "contexts in_flight_state = [\<lparr>name = ''A'', segments = [example_segment]\<rparr>]"
  "timers in_flight_state = []"
  by (simp_all add: in_flight_state_def generateSpeech_start_def typed_state_fields
        is_ws1_def is_ws2_def is_ws3_def)

lemma bad_artifact_checked:
  "check_audio_handler ''/srv/csm-ui'' example_fs ''GET'' (Some (last_segment ''/audio/abc123.wav''))
     = (200, CheckInfo True 48 True 44 (Some False))"
  by (simp add: check_audio_handler_def audio_file_path_def audio_dir_def basename_def
        path_join_def path_resolve_def path_normalize_def is_sep_def last_segment_def
        example_fs_def bad_artifact_def Let_def)

lemma bad_artifact_generated:
  "generate_handler (generate_request typed_state) ''abc123'' clean_run
     = (200, AudioBody ''/audio/abc123.wav'' 24000 None)"
  by (simp add: generate_handler_def generate_request_def typed_state_def clean_run_def
        bad_artifact_def)

text \<open>
  C2 (as amended). A generation request whose artifact is missing or empty fails, whether
  or not the script exited with zero: the handler answers 500, the client raises the error
  toast with the handler's message (that the file was not created or is empty when the
  script reported success, that the generation failed when it did not), and neither the
  contexts nor the active context change. Whether the file begins with a container
  signature has no part in this.
\<close>

theorem generateSpeech_missing_or_empty_artifact:
  assumes "\<not> js_blank (inputText s)"
    and "outputFile run = None \<or> outputFile run = Some []"
    and "reply_of_response (generate_handler (generate_request s) audioId run)
           = Some (generate_reply env)"
  shows "fst (generate_handler (generate_request s) audioId run) = 500
       \<and> contexts (generateSpeech env s) = contexts s
       \<and> activeContext (generateSpeech env s) = activeContext s
       \<and> audioUrl (generateSpeech env s) = audioUrl s
       \<and> toasts (generateSpeech env s)
           = toasts s @ [ToastError (if exec_error run then ''Failed to generate audio''
                                     else if outputFile run = None
                                       then ''Output file was not created''
                                     else ''Generated audio file is empty'')]"
proof -
  let ?m = "if exec_error run then ''Failed to generate audio''
            else if outputFile run = None then ''Output file was not created''
            else ''Generated audio file is empty''"
  have nonempty: "inputText s \<noteq> []" using assms(1) by (rule not_blank_nonempty)
  have handler: "generate_handler (generate_request s) audioId run
                   = (500, ErrorBody ?m (if exec_error run then Some (stderr run) else None))"
    unfolding generate_request_def
    using nonempty assms(2) by (rule generate_handler_no_artifact)
  then have reply: "generate_reply env = GenNotOk (Some ?m)"
    using assms(3) by simp
  have "?m \<noteq> []" by simp
  from generateSpeech_rejected [OF assms(1) reply this] handler
  show ?thesis by simp
qed

theorem generateSpeech_missing_or_empty_artifact_witness:
  "\<not> js_blank (inputText typed_state)
   \<and> outputFile missing_run = None
   \<and> generate_handler (generate_request typed_state) ''abc123'' missing_run
       = (500, ErrorBody ''Output file was not created'' None)
   \<and> reply_of_response (generate_handler (generate_request typed_state) ''abc123'' missing_run)
       = Some (generate_reply missing_artifact_env)
   \<and> contexts (generateSpeech missing_artifact_env typed_state)
       = [\<lparr>name = ''A'', segments = [example_segment]\<rparr>]
   \<and> activeContext (generateSpeech missing_artifact_env typed_state)
       = Some \<lparr>name = ''A'', segments = [example_segment]\<rparr>
   \<and> toasts (generateSpeech missing_artifact_env typed_state)
       = [ToastError ''Output file was not created'']"
proof -
  have h2: "outputFile missing_run = None \<or> outputFile missing_run = Some []"
    by (simp add: missing_run_def)
  have handler: "generate_handler (generate_request typed_state) ''abc123'' missing_run
                   = (500, ErrorBody ''Output file was not created'' None)"
    by (simp add: generate_handler_def generate_request_def typed_state_def missing_run_def)
  have h3: "reply_of_response (generate_handler (generate_request typed_state) ''abc123'' missing_run)
              = Some (generate_reply missing_artifact_env)"
    by (simp add: handler missing_artifact_env_def)
  have run: "outputFile missing_run = None" "\<not> exec_error missing_run"
    by (simp_all add: missing_run_def)
  show ?thesis
    using generateSpeech_missing_or_empty_artifact [OF typed_state_not_blank h2 h3]
    by (simp add: handler typed_state_fields run is_ws1_def is_ws2_def is_ws3_def missing_artifact_env_def)
qed

text \<open>
  The script exits with zero and leaves 48 bytes that do not begin with \<open>RIFF\<close>; the
  check-audio handler reports \<open>isValidWav = false\<close>, and the request still succeeds and
  appends its segment to context A.
\<close>

theorem generateSpeech_bad_signature_counterexample:
  "\<not> exec_error clean_run
   \<and> outputFile clean_run = Some bad_artifact
   \<and> take 4 bad_artifact \<noteq> ''RIFF''
   \<and> snd (check_audio_handler ''/srv/csm-ui'' example_fs ''GET''
            (Some (last_segment ''/audio/abc123.wav'')))
       = CheckInfo True 48 True 44 (Some False)
   \<and> reply_of_response (generate_handler (generate_request typed_state) ''abc123'' clean_run)
       = Some (generate_reply bad_artifact_env)
   \<and> check_reply_of (check_audio_handler ''/srv/csm-ui'' example_fs ''GET''
                        (Some (last_segment ''/audio/abc123.wav'')))
       = check_audio_reply bad_artifact_env
   \<and> contexts (generateSpeech bad_artifact_env typed_state)
       = [\<lparr>name = ''A'',
           segments = [example_segment,
                       \<lparr>speaker = 0, text_field = ''Hello there'', audio = None,
                        audioPath = Some ''/audio/abc123.wav''\<rparr>]\<rparr>]
   \<and> last (toasts (generateSpeech bad_artifact_env typed_state))
       = ToastSuccess ''Audio generated successfully!''"
proof -
  have reply: "generate_reply bad_artifact_env = GenOk ''/audio/abc123.wav'' None"
    and check: "check_audio_reply bad_artifact_env = CheckData True True"
    by (simp_all add: bad_artifact_env_def)
  note ok = generateSpeech_ok [OF typed_state_not_blank reply]
  have ctx: "contexts (generateSpeech bad_artifact_env typed_state)
       = [\<lparr>name = ''A'',
           segments = [example_segment,
                       \<lparr>speaker = 0, text_field = ''Hello there'', audio = None,
                        audioPath = Some ''/audio/abc123.wav''\<rparr>]\<rparr>]"
    by (simp add: ok(1) typed_state_fields append_segment_def new_segment_def)
  have run: "\<not> exec_error clean_run" "outputFile clean_run = Some bad_artifact"
    "take 4 bad_artifact \<noteq> ''RIFF''"
    by (simp_all add: clean_run_def bad_artifact_def)
  show ?thesis
    using ctx ok(7) run
    by (simp add: bad_artifact_checked bad_artifact_generated reply check)
qed

text \<open>
  C3. When the script exits with an error and the output file exists and is not empty, the
  handler answers 200 with the audio URL and, as warnings, the script's standard error (a
  fixed sentence when that is empty); the client then completes the request: the URL is
  set, processing ends, the warning and the success toasts are raised, and the active
  context, being the store's context of its name, gains the new segment, in the store as
  well.
\<close>

theorem generateSpeech_success_with_warnings:
  assumes "\<not> js_blank (inputText s)"
    and "exec_error run" and "outputFile run = Some bytes" and "bytes \<noteq> []"
    and "reply_of_response (generate_handler (generate_request s) audioId run)
           = Some (generate_reply env)"
    and "activeContext s = Some active"
    and "find_context (name active) (contexts s) = Some active"
  shows "generate_handler (generate_request s) audioId run
           = (200, AudioBody (''/audio/'' @ audioId @ ''.wav'') 24000
                     (Some (if stderr run \<noteq> [] then stderr run
                            else ''Warning encountered but audio generated successfully'')))
       \<and> audioUrl (generateSpeech env s) = Some (''/audio/'' @ audioId @ ''.wav'')
       \<and> isProcessing (generateSpeech env s) = False
       \<and> ToastWarning ''Audio generated with warnings, but should play correctly''
            \<in> set (toasts (generateSpeech env s))
       \<and> last (toasts (generateSpeech env s)) = ToastSuccess ''Audio generated successfully!''
       \<and> activeContext (generateSpeech env s)
           = Some (active\<lparr>segments := segments active
                              @ [\<lparr>speaker = selectedSpeaker s, text_field = inputText s,
                                  audio = None,
                                  audioPath = Some (''/audio/'' @ audioId @ ''.wav'')\<rparr>]\<rparr>)
       \<and> find_context (name active) (contexts (generateSpeech env s))
           = activeContext (generateSpeech env s)"
proof -
  let ?url = "''/audio/'' @ audioId @ ''.wav''"
  let ?w = "if stderr run \<noteq> [] then stderr run
            else ''Warning encountered but audio generated successfully''"
  have nonempty: "inputText s \<noteq> []" using assms(1) by (rule not_blank_nonempty)
  have handler: "generate_handler (generate_request s) audioId run
                   = (200, AudioBody ?url 24000 (Some ?w))"
    unfolding generate_request_def
    using nonempty assms(2,3,4) by (rule generate_handler_error_but_artifact)
  then have reply: "generate_reply env = GenOk ?url (Some ?w)"
    using assms(5) by simp
  have w: "?w \<noteq> []" by simp
  note ok = generateSpeech_ok [OF assms(1) reply]
  have active: "activeContext (generateSpeech env s)
           = Some (active\<lparr>segments := segments active @ [new_segment s ?url]\<rparr>)"
    using assms(6,7) by (simp add: ok(2))
  have stored: "find_context (name active) (contexts (generateSpeech env s))
                  = activeContext (generateSpeech env s)"
    using assms(6,7) by (simp add: ok(1) active find_context_append_segment)
  show ?thesis
    using handler ok(4,5,7) active stored
      generateSpeech_warning_toast [OF assms(1) reply w]
    by (simp add: new_segment_def)
qed

theorem generateSpeech_success_with_warnings_witness:
  "\<not> js_blank (inputText typed_state)
   \<and> exec_error warned_run
   \<and> outputFile warned_run = Some ''RIFF....WAVEfmt ''
   \<and> generate_handler (generate_request typed_state) ''abc123'' warned_run
       = (200, AudioBody ''/audio/abc123.wav'' 24000
                 (Some ''AttributeError: NoneType object has no attribute cadam32bit_grad_fp32''))
   \<and> reply_of_response (generate_handler (generate_request typed_state) ''abc123'' warned_run)
       = Some (generate_reply warned_env)
   \<and> audioUrl (generateSpeech warned_env typed_state) = Some ''/audio/abc123.wav''
   \<and> activeContext (generateSpeech warned_env typed_state)
       = Some \<lparr>name = ''A'',
               segments = [example_segment,
                           \<lparr>speaker = 0, text_field = ''Hello there'', audio = None,
                            audioPath = Some ''/audio/abc123.wav''\<rparr>]\<rparr>"
proof -
  have h2: "exec_error warned_run" and h3: "outputFile warned_run = Some ''RIFF....WAVEfmt ''"
    and h4: "''RIFF....WAVEfmt '' \<noteq> []"
    and err: "stderr warned_run
                = ''AttributeError: NoneType object has no attribute cadam32bit_grad_fp32''"
    by (simp_all add: warned_run_def)
  have handler: "generate_handler (generate_request typed_state) ''abc123'' warned_run
       = (200, AudioBody ''/audio/abc123.wav'' 24000
                 (Some ''AttributeError: NoneType object has no attribute cadam32bit_grad_fp32''))"
    by (simp add: generate_handler_def generate_request_def typed_state_fields warned_run_def)
  have h5: "reply_of_response (generate_handler (generate_request typed_state) ''abc123'' warned_run)
              = Some (generate_reply warned_env)"
    by (simp add: handler warned_env_def)
  have h6: "activeContext typed_state = Some \<lparr>name = ''A'', segments = [example_segment]\<rparr>"
    by (simp add: typed_state_fields)
  have h7: "find_context (name \<lparr>name = ''A'', segments = [example_segment]\<rparr>) (contexts typed_state)
              = Some \<lparr>name = ''A'', segments = [example_segment]\<rparr>"
    by (simp add: typed_state_fields find_context_def)
  show ?thesis
    using generateSpeech_success_with_warnings [OF typed_state_not_blank h2 h3 h4 h5 h6 h7]
    by (simp add: h2 h3 err typed_state_fields is_ws1_def is_ws2_def is_ws3_def warned_env_def)
qed

text \<open>
  C7 (as amended). While a request is in flight the Generate button is disabled: a click
  issues no request and leaves the whole state as it is, so nothing is queued, the request
  in flight goes on, no context changes, and no toast, of an error or otherwise, is
  raised.
\<close>

theorem clickGenerate_while_processing:
  "isProcessing s \<Longrightarrow> clickGenerate s = (s, False)"
  by (simp add: clickGenerate_def)

theorem clickGenerate_while_processing_witness:
  "isProcessing in_flight_state
   \<and> clickGenerate in_flight_state = (in_flight_state, False)
   \<and> contexts (fst (clickGenerate in_flight_state))
       = [\<lparr>name = ''A'', segments = [example_segment]\<rparr>]
   \<and> timers (fst (clickGenerate in_flight_state)) = []"
  using clickGenerate_while_processing [of in_flight_state]
  by (simp add: in_flight_state_fields)

text \<open>
  In the state a started request leaves behind, a click is not answered by any toast: the
  list of toasts stays empty.
\<close>

theorem clickGenerate_no_busy_error_counterexample:
  "isProcessing in_flight_state
   \<and> snd (clickGenerate in_flight_state) = False
   \<and> toasts (fst (clickGenerate in_flight_state)) = []"
  by (simp add: clickGenerate_def in_flight_state_fields)

text \<open>
  No run of \<open>generateSpeech\<close> hands a retry to \<open>setTimeout\<close>: \<open>fetchAudioBuffer\<close>
  always returns an array, so the branch that schedules the retry is never taken.
\<close>

lemma generateSpeech_schedules_no_retry: "timers (generateSpeech env s) = timers s"
proof (cases "js_blank (inputText s)")
  case True
  then show ?thesis
    by (simp add: generateSpeech_def generateSpeech_start_def toast_error_def)
next
  case False
  show ?thesis
  proof (cases "generate_reply env")
    case (GenOk url w)
    then show ?thesis using False by (simp add: generateSpeech_ok(3))
  next
    case (GenNotOk e)
    then show ?thesis using False
      by (simp add: generateSpeech_def generateSpeech_start_def generateSpeech_finish_def
            generateSpeech_body_def toast_error_def)
  next
    case (GenNetworkError e)
    then show ?thesis using False
      by (simp add: generateSpeech_def generateSpeech_start_def generateSpeech_finish_def
            generateSpeech_body_def toast_error_def)
  qed
qed

lemma generateSpeech_unreachable_audio:
  assumes "\<not> js_blank (inputText s)" and "generate_reply env = GenOk url w"
    and "cache_get (audioCache s) url = None"
    and "retrieval_outcome (audio_env env) url = Unreachable"
  shows "audioData (generateSpeech env s) = Some (Float32Array last_resort_placeholder)"
proof -
  define s3 where "s3 = (if w \<noteq> None \<and> w \<noteq> Some []
                         then toast_warning
                                ''Audio generated with warnings, but should play correctly''
                                ((fst (generateSpeech_start s))\<lparr>generationProgress := 60\<rparr>)
                         else (fst (generateSpeech_start s))\<lparr>generationProgress := 60\<rparr>)
                        \<lparr>audioUrl := Some url\<rparr>"
  define s5 where "s5 = (validate_audio_file url (check_audio_reply env) s3)\<lparr>generationProgress := 80\<rparr>"
  have "audioCache s5 = audioCache s"
    using assms(1)
    by (simp add: s5_def s3_def validate_audio_file_frame toast_warning_def
          generateSpeech_start_def)
  then have miss: "cache_get (audioCache s5) url = None" using assms(3) by simp
  obtain r s6 where f: "fetchAudioBuffer (audio_env env) url s5 = (r, s6)"
    by (cases "fetchAudioBuffer (audio_env env) url s5")
  have "r = Returns (Some (Float32Array last_resort_placeholder))"
    using fetchAudioBuffer_miss_result [OF miss, of "audio_env env"] f assms(4) by simp
  with f have f': "fetchAudioBuffer (audio_env env) url s5
                     = (Returns (Some (Float32Array last_resort_placeholder)), s6)" by simp
  have "generateSpeech env s = generateSpeech_finish s env (fst (generateSpeech_start s))"
    using generateSpeech_started [OF assms(1)] by simp
  then show ?thesis
    using assms(2) f' [unfolded s5_def s3_def]
    by (simp add: generateSpeech_finish_def generateSpeech_body_def add_generated_segment_def
          toast_success_def Let_def split: option.splits)
qed

text \<open>
  C9, at the failing input: the server answers with an audio URL and every request of the
  retrieval fails, so that no visualization data is obtained from the file. The request
  completes (processing ends, the success toast is raised) with the last-resort placeholder
  as visualization data, and no retry is scheduled: the list of timers stays empty.
\<close>

theorem generateSpeech_unreachable_audio_no_retry:
  "retrieval_outcome (audio_env unreachable_gen_env) ''/audio/abc123.wav'' = Unreachable
   \<and> audioData (generateSpeech unreachable_gen_env typed_state)
       = Some (Float32Array last_resort_placeholder)
   \<and> timers (generateSpeech unreachable_gen_env typed_state) = []
   \<and> isProcessing (generateSpeech unreachable_gen_env typed_state) = False
   \<and> last (toasts (generateSpeech unreachable_gen_env typed_state))
       = ToastSuccess ''Audio generated successfully!''"
proof -
  have reply: "generate_reply unreachable_gen_env = GenOk ''/audio/abc123.wav'' None"
    and env: "audio_env unreachable_gen_env = dead_env"
    by (simp_all add: unreachable_gen_env_def)
  have miss: "cache_get (audioCache typed_state) ''/audio/abc123.wav'' = None"
    by (simp add: cache_get_None typed_state_fields object_prototype_names_def)
  have out: "retrieval_outcome (audio_env unreachable_gen_env) ''/audio/abc123.wav'' = Unreachable"
    by (simp add: env dead_env_outcome)
  note ok = generateSpeech_ok [OF typed_state_not_blank reply]
  show ?thesis
    using out ok(4,7) generateSpeech_unreachable_audio [OF typed_state_not_blank reply miss out]
    by (simp add: generateSpeech_schedules_no_retry typed_state_fields)
qed

section \<open>Properties of the file-serving handlers\<close>

lemma basename_no_separator: "CHR ''/'' \<notin> set (basename p)"
proof -
  have "\<forall>c \<in> set (takeWhile (\<lambda>c. \<not> is_sep c) xs). c \<noteq> CHR ''/''" for xs
    by (auto simp: is_sep_def dest: set_takeWhileD)
  then show ?thesis by (auto simp: basename_def Let_def)
qed

lemma split_path_nonempty: "split_path p \<noteq> []"
  by (induction p) (auto split: list.splits)

lemma split_path_no_sep: "CHR ''/'' \<notin> set b \<Longrightarrow> split_path b = [b]"
  by (induction b) (auto simp: is_sep_def)

lemma split_path_segments: "seg \<in> set (split_path p) \<Longrightarrow> CHR ''/'' \<notin> set seg"
proof (induction p arbitrary: seg)
  case Nil
  then show ?case by simp
next
  case (Cons c cs)
  then show ?case
    by (cases "split_path cs") (auto simp: is_sep_def split: if_splits)
qed

lemma split_path_cons:
  "CHR ''/'' \<notin> set seg \<Longrightarrow> split_path (seg @ CHR ''/'' # rest) = seg # split_path rest"
  by (induction seg) (auto simp: is_sep_def)

lemma split_path_join:
  "N \<noteq> [] \<Longrightarrow> \<forall>x \<in> set N. CHR ''/'' \<notin> set x \<Longrightarrow> split_path (join_slash N) = N"
proof (induction N rule: join_slash.induct)
  case 1
  then show ?case by simp
next
  case (2 seg)
  then show ?case by (simp add: split_path_no_sep)
next
  case (3 seg v va)
  then show ?case by (simp add: split_path_cons)
qed

lemma join_slash_snoc: "xs \<noteq> [] \<Longrightarrow> join_slash (xs @ [b]) = join_slash xs @ ''/'' @ b"
  by (induction xs rule: join_slash.induct) auto

lemma join_slash_nonempty: "x \<in> set xs \<Longrightarrow> x \<noteq> [] \<Longrightarrow> join_slash xs \<noteq> []"
  by (induction xs rule: join_slash.induct) auto

lemma normalize_segments_append:
  "normalize_segments a acc (xs @ ys)
     = normalize_segments a (rev (normalize_segments a acc xs)) ys"
  by (induction xs arbitrary: acc) (auto split: list.splits)

lemma normalize_segments_normal_id:
  "\<forall>x \<in> set xs. normal_segment x \<Longrightarrow> normalize_segments a acc xs = rev acc @ xs"
  by (induction xs arbitrary: acc) (auto simp: normal_segment_def)

lemma normalize_segments_normal:
  "\<forall>x \<in> set acc. normal_segment x \<Longrightarrow> \<forall>x \<in> set xs. CHR ''/'' \<notin> set x \<Longrightarrow>
     \<forall>x \<in> set (normalize_segments False acc xs). normal_segment x"
proof (induction xs arbitrary: acc)
  case Nil
  then show ?case by simp
next
  case (Cons seg segs)
  note IH = Cons.IH and acc_normal = Cons.prems(1) and nosep = Cons.prems(2)
  have rest_nosep: "\<forall>x \<in> set segs. CHR ''/'' \<notin> set x" using nosep by simp
  show ?case
  proof (cases "seg = [] \<or> seg = ''.''")
    case True
    then show ?thesis using IH [OF acc_normal rest_nosep] by auto
  next
    case False
    note plain = False
    show ?thesis
    proof (cases "seg = ''..''")
      case True
      note dotdot = True
      show ?thesis
      proof (cases acc)
        case Nil
        have "\<forall>x \<in> set ([] :: string list). normal_segment x" by simp
        from IH [OF this rest_nosep] show ?thesis using dotdot Nil by simp
      next
        case (Cons l rest)
        have "l \<noteq> ''..''" using acc_normal Cons by (auto simp: normal_segment_def)
        moreover have "\<forall>x \<in> set rest. normal_segment x" using acc_normal Cons by simp
        ultimately show ?thesis using dotdot Cons IH [of rest] rest_nosep by simp
      qed
    next
      case False
      have "normal_segment seg"
        using plain False nosep by (simp add: normal_segment_def)
      then have "\<forall>x \<in> set (seg # acc). normal_segment x" using acc_normal by simp
      from IH [OF this rest_nosep] show ?thesis using plain False by simp
    qed
  qed
qed

lemma resolved_segments_normal: "\<forall>x \<in> set (resolved_segments cwd). normal_segment x"
  unfolding resolved_segments_def
  by (rule normalize_segments_normal) (auto dest: split_path_segments)

text \<open>
  Normalising an absolute path whose segments are normal, but possibly the last one.
\<close>

lemma normalize_absolute:
  assumes "D \<noteq> []" and "\<forall>x \<in> set D. normal_segment x" and "CHR ''/'' \<notin> set b" and "b \<noteq> []"
  shows "path_normalize (''/'' @ join_slash D @ ''/'' @ b)
           = (let q = join_slash (normalize_segments False (rev D) [b])
              in if q = [] then ''/'' else ''/'' @ q)"
proof -
  have nosep: "\<forall>x \<in> set (D @ [b]). CHR ''/'' \<notin> set x"
    using assms(2,3) by (auto simp: normal_segment_def)
  have "''/'' @ join_slash D @ ''/'' @ b = CHR ''/'' # join_slash (D @ [b])"
    using assms(1) by (simp add: join_slash_snoc)
  moreover have "split_path (CHR ''/'' # join_slash (D @ [b])) = [] # D @ [b]"
    using split_path_join [of "D @ [b]"] nosep by (simp add: is_sep_def)
  moreover have "normalize_segments False [] ([] # D @ [b])
                   = normalize_segments False (rev D) [b]"
    using normalize_segments_append [of False "[]" D "[b]"]
      normalize_segments_normal_id [OF assms(2), of False "[]"] by simp
  moreover have "\<not> is_sep (last (CHR ''/'' # join_slash (D @ [b])))"
  proof -
    have "last (CHR ''/'' # join_slash (D @ [b])) = last b"
      using assms(1,4) by (simp add: join_slash_snoc)
    moreover have "last b \<in> set b" using assms(4) by (rule last_in_set)
    ultimately show ?thesis using assms(3) by (auto simp: is_sep_def)
  qed
  ultimately show ?thesis
    by (simp add: path_normalize_def is_sep_def Let_def)
qed

lemma normal_public_audio: "normal_segment ''public''" "normal_segment ''audio''"
  by (simp_all add: normal_segment_def)

lemma path_resolve_segments: "path_resolve cwd = ''/'' @ join_slash (resolved_segments cwd)"
  by (simp add: path_resolve_def resolved_segments_def)

lemma path_join_nonempty:
  assumes "\<forall>a \<in> set args. a \<noteq> []" and "join_slash args \<noteq> []"
  shows "path_join args = path_normalize (join_slash args)"
proof -
  have "filter (\<lambda>a. a \<noteq> []) args = args" using assms(1) by (simp add: filter_id_conv)
  then show ?thesis using assms(2) by (simp add: path_join_def)
qed

lemma audio_dir_resolved:
  "audio_dir cwd = ''/'' @ join_slash (resolved_segments cwd @ [''public'', ''audio''])"
proof (cases "resolved_segments cwd = []")
  case True
  then show ?thesis
    by (simp add: audio_dir_def path_resolve_segments path_join_def path_normalize_def
          is_sep_def)
next
  case False
  let ?N = "resolved_segments cwd"
  let ?D = "?N @ [''public'']"
  define p where "p = ''/'' @ join_slash ?D @ ''/'' @ ''audio''"
  have normal: "\<forall>x \<in> set ?D. normal_segment x"
    using resolved_segments_normal [of cwd] normal_public_audio by simp
  have joined: "join_slash [''/'' @ join_slash ?N, ''public'', ''audio''] = p"
    using False by (simp add: p_def join_slash_snoc)
  have pne: "p \<noteq> []" by (simp add: p_def)
  have norm: "path_normalize p = ''/'' @ join_slash (?D @ [''audio''])"
    unfolding p_def
    using normalize_absolute [of ?D "''audio''"] normal
      join_slash_nonempty [of "''audio''" "?D @ [''audio'']"]
    by (simp add: Let_def)
  have "audio_dir cwd = path_join [''/'' @ join_slash ?N, ''public'', ''audio'']"
    by (simp only: audio_dir_def path_resolve_segments)
  also have "\<dots> = path_normalize (join_slash [''/'' @ join_slash ?N, ''public'', ''audio''])"
  proof (rule path_join_nonempty)
    show "\<forall>a \<in> set [''/'' @ join_slash ?N, ''public'', ''audio'']. a \<noteq> []" by simp
    show "join_slash [''/'' @ join_slash ?N, ''public'', ''audio''] \<noteq> []"
      unfolding joined by (rule pne)
  qed
  also have "\<dots> = path_normalize p" by (simp only: joined)
  also have "\<dots> = ''/'' @ join_slash (?D @ [''audio''])" by (rule norm)
  finally show ?thesis by simp
qed

lemma audio_file_path_resolved:
  assumes "basename f \<noteq> []"
  shows "audio_file_path cwd f
           = (let q = join_slash (normalize_segments False
                                    (rev (resolved_segments cwd @ [''public'', ''audio'']))
                                    [basename f])
              in if q = [] then ''/'' else ''/'' @ q)"
proof -
  let ?D = "resolved_segments cwd @ [''public'', ''audio'']"
  have normal: "\<forall>x \<in> set ?D. normal_segment x"
    using resolved_segments_normal [of cwd] normal_public_audio by simp
  have nosep: "CHR ''/'' \<notin> set (basename f)" by (rule basename_no_separator)
  have "join_slash [''/'' @ join_slash ?D, basename f]
          = ''/'' @ join_slash ?D @ ''/'' @ basename f"
    by simp
  then have "audio_file_path cwd f = path_normalize (''/'' @ join_slash ?D @ ''/'' @ basename f)"
    using assms by (simp add: audio_file_path_def audio_dir_resolved path_join_def)
  also have "\<dots> = (let q = join_slash (normalize_segments False (rev ?D) [basename f])
                    in if q = [] then ''/'' else ''/'' @ q)"
    using normalize_absolute [of ?D "basename f"] normal nosep assms by simp
  finally show ?thesis .
qed

text \<open>
  For every working directory and every file name whose base name is a plain name, the
  handlers open the file of that base name directly inside the audio directory.
\<close>

lemma audio_file_path_child:
  assumes "basename f \<noteq> []" and "basename f \<noteq> ''.''" and "basename f \<noteq> ''..''"
  shows "audio_file_path cwd f = audio_dir cwd @ ''/'' @ basename f"
    and "inside_dir (audio_dir cwd) (audio_file_path cwd f)"
proof -
  let ?D = "resolved_segments cwd @ [''public'', ''audio'']"
  have nosep: "CHR ''/'' \<notin> set (basename f)" by (rule basename_no_separator)
  have "join_slash (?D @ [basename f]) \<noteq> []"
    using join_slash_nonempty [of "basename f" "?D @ [basename f]"] assms(1) by simp
  moreover have "join_slash (?D @ [basename f]) = join_slash ?D @ ''/'' @ basename f"
    by (rule join_slash_snoc) simp
  ultimately show path: "audio_file_path cwd f = audio_dir cwd @ ''/'' @ basename f"
    using assms by (simp add: audio_file_path_resolved [OF assms(1)] audio_dir_resolved Let_def)
  show "inside_dir (audio_dir cwd) (audio_file_path cwd f)"
    using assms nosep by (simp add: inside_dir_def path split_path_no_sep)
qed

text \<open>
  For every working directory and every file name whose base name is \<open>..\<close>, the
  handlers open the directory above the audio directory.
\<close>

lemma audio_file_path_parent:
  assumes "basename f = ''..''"
  shows "audio_file_path cwd f = ''/'' @ join_slash (resolved_segments cwd @ [''public''])"
    and "\<not> inside_dir (audio_dir cwd) (audio_file_path cwd f)"
proof -
  let ?P = "resolved_segments cwd @ [''public'']"
  have nonempty: "basename f \<noteq> []" using assms by simp
  have q: "join_slash ?P \<noteq> []"
    using join_slash_nonempty [of "''public''" ?P] by simp
  show path: "audio_file_path cwd f = ''/'' @ join_slash ?P"
    using assms q by (simp add: audio_file_path_resolved [OF nonempty] Let_def)
  have "audio_dir cwd = (''/'' @ join_slash ?P) @ ''/audio''"
    using join_slash_snoc [of ?P "''audio''"] by (simp add: audio_dir_resolved)
  then have "length (audio_file_path cwd f) < length (audio_dir cwd)"
    by (simp add: path)
  then show "\<not> inside_dir (audio_dir cwd) (audio_file_path cwd f)"
    by (simp add: inside_dir_def)
qed

text \<open>
  C8, at the failing input. The base name of \<open>..\<close> is \<open>..\<close> itself, and joining it to
  the audio directory yields the directory above it: the path the proxy opens is not
  inside the audio directory (it is a directory, and the stream fails with 500). For
  \<open>../../etc/passwd\<close> the handler opens \<open>passwd\<close> inside the audio directory.
\<close>

theorem audio_proxy_parent_directory:
  "basename ''..'' = ''..''
   \<and> audio_dir ''/srv/csm-ui'' = ''/srv/csm-ui/public/audio''
   \<and> audio_file_path ''/srv/csm-ui'' ''..'' = ''/srv/csm-ui/public''
   \<and> \<not> inside_dir (audio_dir ''/srv/csm-ui'') (audio_file_path ''/srv/csm-ui'' ''..'')
   \<and> audio_proxy_handler ''/srv/csm-ui'' example_fs ''GET'' (Some ''..'')
       = (500, ProxyError ''Error streaming file'')
   \<and> audio_file_path ''/srv/csm-ui'' ''../../etc/passwd'' = ''/srv/csm-ui/public/audio/passwd''
   \<and> inside_dir (audio_dir ''/srv/csm-ui'')
        (audio_file_path ''/srv/csm-ui'' ''../../etc/passwd'')"
  by (simp add: audio_proxy_handler_def audio_file_path_def audio_dir_def basename_def
        path_join_def path_resolve_def path_normalize_def is_sep_def inside_dir_def
        example_fs_def Let_def)

end
